theory Spec2Isabelle
  imports
    Complex_Main
    "HOL-Library.Char_ord"
    "HOL-Library.List_Lexorder"
    "HOL-Library.Log_Nat"
    "HOL-Library.Product_Lexorder"
    "HOL-Library.Sublist"
begin

section \<open>Supplier recommendation: the table and its preprocessing\<close>

text \<open>
  The program (\<^verbatim>\<open>supplier.py\<close>) loads a table of purchase-order lines with pandas,
  derives three columns, and answers queries with \<^verbatim>\<open>recommend_suppliers\<close>.
  A DataFrame is modelled as the list of its rows, in order.

  Numbers. A float64 value is modelled as the rational number it stands for, and a
  missing value (NaN, NaT) as \<^term>\<open>None\<close>. Comparisons are exact on such values. The
  arithmetic of the preprocessing is exact here; the mean of a group, whose float64
  rounding decides whether an aggregate stays below a limit, is a function of the
  library and a parameter of the model (see \<open>library\<close> below).

  Missing values. The columns that the source itself treats as possibly missing are
  optional: \<^verbatim>\<open>Delivery_Date\<close> (tested with \<^verbatim>\<open>pd.isnull\<close>), \<^verbatim>\<open>Defective_Units\<close>
  (\<^verbatim>\<open>fillna(0)\<close>) and \<^verbatim>\<open>Item_Category\<close> (\<^verbatim>\<open>dropna()\<close> where the form's choices
  are built). Every other column is present in every row.

  Dates. A parsed date is the number of days since 1970-01-01, so that the difference
  of two dates \<^verbatim>\<open>.dt.days\<close> is integer subtraction and adding a \<^verbatim>\<open>Timedelta\<close> of
  \<open>n\<close> days is adding \<open>n\<close>.

  The column \<^verbatim>\<open>Price_Efficiency\<close> and its group mean are computed beside the others
  and enter no filter, group key or sort key; they are left out.
\<close>

datatype py_error = ZeroDivisionError | AttributeError

record raw_row =
  PO_ID :: string
  Supplier :: string
  Item_Category :: "string option"
  Compliance :: string
  Order_Status :: string
  Quantity :: int
  Defective_Units :: "int option"
  Unit_Price :: rat
  Negotiated_Price :: rat
  Order_Date :: int
  Delivery_Date :: "int option"

text \<open>The canonical table has the derived columns as well.\<close>

record row = raw_row +
  Lead_Time :: "int option"
  Defect_Rate :: "rat option"

text \<open>The civil date \<open>y-m-d\<close> as a day number (\<^verbatim>\<open>pd.to_datetime\<close> on a date).\<close>

definition days_from_civil :: "int \<Rightarrow> int \<Rightarrow> int \<Rightarrow> int" where
  "days_from_civil y m d =
     (let y' = (if m \<le> 2 then y - 1 else y);
          era = y' div 400;
          yoe = y' - era * 400;
          doy = (153 * (m + (if m > 2 then - 3 else 9)) + 2) div 5 + d - 1;
          doe = yoe * 365 + yoe div 4 - yoe div 100 + doy
      in era * 146097 + doe - 719468)"

definition usd_to_idr :: rat where
  "usd_to_idr = 16000"

text \<open>
  \<^verbatim>\<open>df['Lead_Time'] = (df['Delivery_Date'] - df['Order_Date']).dt.days\<close>:
  missing when the delivery date is.
\<close>

definition lead_time :: "'a raw_row_scheme \<Rightarrow> int option" where
  "lead_time r = map_option (\<lambda>d. d - Order_Date r) (Delivery_Date r)"

definition mean :: "rat list \<Rightarrow> rat" where
  "mean xs = sum_list xs / of_nat (length xs)"

text \<open>
  \<^verbatim>\<open>df.dropna(subset=['Delivery_Date']).groupby('Supplier')['Lead_Time'].mean()\<close>:
  the lead times of a supplier's rows that have a delivery date, and their mean; a
  supplier without such a row has no entry.
\<close>

definition ref_lead_times :: "'a raw_row_scheme list \<Rightarrow> string \<Rightarrow> int list" where
  "ref_lead_times df s = List.map_filter lead_time (filter (\<lambda>r. Supplier r = s) df)"

definition mean_lead_time :: "'a raw_row_scheme list \<Rightarrow> string \<Rightarrow> rat option" where
  "mean_lead_time df s =
     (case ref_lead_times df s of
        [] \<Rightarrow> None
      | l # ls \<Rightarrow> Some (mean (map of_int (l # ls))))"

text \<open>Python's \<^verbatim>\<open>round\<close> of a float to an integer: to the nearest, a tie to the even one.\<close>

definition py_round :: "rat \<Rightarrow> int" where
  "py_round x =
     (let f = \<lfloor>x\<rfloor>; d = x - of_int f
      in if d < 1 / 2 then f
         else if 1 / 2 < d then f + 1
         else if even f then f else f + 1)"

definition isi_delivery_date :: "(string \<Rightarrow> rat option) \<Rightarrow> 'a raw_row_scheme \<Rightarrow> int option" where
  "isi_delivery_date mlt r =
     (case (Delivery_Date r, mlt (Supplier r)) of
        (None, Some m) \<Rightarrow> Some (Order_Date r + py_round m)
      | _ \<Rightarrow> Delivery_Date r)"

text \<open>
  Python's \<^verbatim>\<open>/\<close> raises on a zero divisor; \<^verbatim>\<open>NaN\<close> divided by a number is
  \<^verbatim>\<open>NaN\<close>.
\<close>

definition py_truediv :: "rat \<Rightarrow> rat \<Rightarrow> py_error + rat" where
  "py_truediv a b = (if b = 0 then Inl ZeroDivisionError else Inr (a / b))"

text \<open>
  \<^verbatim>\<open>(row['Defective_Units'] / row['Quantity']) * 100 if row['Quantity'] != 0 else 0\<close>
\<close>

definition defect_rate :: "'a raw_row_scheme \<Rightarrow> py_error + rat option" where
  "defect_rate r =
     (if Quantity r \<noteq> 0 then
        (case Defective_Units r of
           None \<Rightarrow> Inr None
         | Some u \<Rightarrow>
             (case py_truediv (of_int u) (of_int (Quantity r)) of
                Inl e \<Rightarrow> Inl e
              | Inr q \<Rightarrow> Inr (Some (q * 100))))
      else Inr (Some 0))"

text \<open>\<^verbatim>\<open>df.apply(f, axis=1)\<close>: row by row, stopping at the first row that raises.\<close>

fun apply_rows :: "('a \<Rightarrow> py_error + 'b) \<Rightarrow> 'a list \<Rightarrow> py_error + 'b list" where
  "apply_rows f [] = Inr []"
| "apply_rows f (x # xs) =
     (case f x of
        Inl e \<Rightarrow> Inl e
      | Inr y \<Rightarrow> (case apply_rows f xs of Inl e \<Rightarrow> Inl e | Inr ys \<Rightarrow> Inr (y # ys)))"

definition fillna0 :: "int option \<Rightarrow> int option" where
  "fillna0 v = (case v of None \<Rightarrow> Some 0 | Some u \<Rightarrow> Some u)"

text \<open>The steps of lines 9 to 39, one column at a time as the source does them.\<close>

definition convert_prices :: "raw_row \<Rightarrow> raw_row" where
  "convert_prices r =
     r\<lparr>Unit_Price := Unit_Price r * usd_to_idr,
       Negotiated_Price := Negotiated_Price r * usd_to_idr\<rparr>"

definition impute_row :: "(string \<Rightarrow> rat option) \<Rightarrow> raw_row \<Rightarrow> raw_row" where
  "impute_row mlt r =
     (r\<lparr>Delivery_Date := isi_delivery_date mlt r\<rparr>)
      \<lparr>Defective_Units := fillna0 (Defective_Units r)\<rparr>"

definition derive_row :: "raw_row \<Rightarrow> py_error + row" where
  "derive_row r =
     (case defect_rate r of
        Inl e \<Rightarrow> Inl e
      | Inr dr \<Rightarrow> Inr (raw_row.extend r (row.fields (lead_time r) dr)))"

definition preprocess :: "raw_row list \<Rightarrow> py_error + row list" where
  "preprocess raw =
     (let df1 = map convert_prices raw;
          mlt = mean_lead_time df1;
          df2 = map (impute_row mlt) df1
      in apply_rows derive_row df2)"

section \<open>The recommendation engine\<close>

text \<open>
  Two functions that the engine calls are not written in the repository and cannot be
  written down from it:
  \<^item> \<^verbatim>\<open>str.lower\<close>, which lowers every cased character of Unicode by the tables of
    the Python runtime;
  \<^item> the \<^verbatim>\<open>mean\<close> of a group of float64 values, whose last bit depends on the order
    and the compensation of the library's summation.
  They are the two fields of a parameter of the model. Every statement about the engine
  holds for every such pair of functions unless it says otherwise.
\<close>

record library =
  str_lower :: "string \<Rightarrow> string"
  group_mean :: "rat list \<Rightarrow> rat"

text \<open>
  What \<^verbatim>\<open>str.lower\<close> does on a string of ASCII characters: the letters A to Z
  become a to z and nothing else changes. (A character is a byte here, and a string
  is ASCII when every byte is below 128.)
\<close>

definition lower_char :: "char \<Rightarrow> char" where
  "lower_char c =
     (if CHR ''A'' \<le> c \<and> c \<le> CHR ''Z'' then char_of (of_char c + (32 :: nat)) else c)"

definition ascii_lower :: "string \<Rightarrow> string" where
  "ascii_lower s = map lower_char s"

definition ascii :: "string \<Rightarrow> bool" where
  "ascii s = list_all (\<lambda>c. of_char c < (128 :: nat)) s"

text \<open>A comparison \<^verbatim>\<open><=\<close> with \<^verbatim>\<open>NaN\<close> on the left is false.\<close>

definition le_nan :: "rat option \<Rightarrow> rat \<Rightarrow> bool" where
  "le_nan v m = (case v of None \<Rightarrow> False | Some x \<Rightarrow> x \<le> m)"

text \<open>The three masks of lines 55 to 57.\<close>

definition price_ok :: "rat \<Rightarrow> row \<Rightarrow> bool" where
  "price_ok max_price r = (Negotiated_Price r \<le> max_price)"

definition lead_ok :: "rat \<Rightarrow> row \<Rightarrow> bool" where
  "lead_ok max_lead_time r = le_nan (map_option of_int (Lead_Time r)) max_lead_time"

definition defect_ok :: "rat \<Rightarrow> row \<Rightarrow> bool" where
  "defect_ok max_defect_rate r = le_nan (Defect_Rate r) max_defect_rate"

text \<open>
  Line 47 reaches the strings of the column through \<^verbatim>\<open>df['Item_Category'].str\<close>.
  The accessor raises \<^verbatim>\<open>AttributeError\<close> on a column that is not of strings: read
  from a file, a column in which no row has a value has the dtype float64, while a
  column with a string in some row, or with no row at all, has the dtype object.
\<close>

definition str_accessor :: "row list \<Rightarrow> py_error + unit" where
  "str_accessor df =
     (if df \<noteq> [] \<and> list_all (\<lambda>r. Item_Category r = None) df then Inl AttributeError
      else Inr ())"

text \<open>
  Lines 44 to 58: the filtered frame, when the accessor of line 47 does not raise
  (\<^verbatim>\<open>recommend_suppliers\<close> below raises before it is used otherwise).
\<close>

definition filtered_df ::
  "library \<Rightarrow> row list \<Rightarrow> string \<Rightarrow> rat \<Rightarrow> rat \<Rightarrow> rat \<Rightarrow> string \<Rightarrow> row list" where
  "filtered_df lib df item_category max_price max_lead_time max_defect_rate compliance_preference =
     (let f1 = (if item_category \<noteq> ''All''
                then filter (\<lambda>r. map_option (str_lower lib) (Item_Category r)
                                    = Some (str_lower lib item_category)) df
                else df);
          f2 = (if compliance_preference = ''Yes'' then filter (\<lambda>r. Compliance r = ''Yes'') f1
                else if compliance_preference = ''No'' then filter (\<lambda>r. Compliance r = ''No'') f1
                else f1)
      in filter (\<lambda>r. price_ok max_price r \<and> lead_ok max_lead_time r \<and> defect_ok max_defect_rate r) f2)"

text \<open>Lines 63 and 73 to 77: the grouping columns.\<close>

definition group_cols :: "string \<Rightarrow> string \<Rightarrow> string list" where
  "group_cols item_category compliance_preference =
     [''Supplier'']
     @ (if item_category = ''All'' then [''Item_Category''] else [])
     @ (if compliance_preference = ''All'' then [''Compliance''] else [])"

definition key_col :: "string \<Rightarrow> row \<Rightarrow> string option" where
  "key_col c r =
     (if c = ''Supplier'' then Some (Supplier r)
      else if c = ''Item_Category'' then Item_Category r
      else if c = ''Compliance'' then Some (Compliance r)
      else None)"

text \<open>
  The key of a row under the grouping columns; \<^verbatim>\<open>groupby\<close> and \<^verbatim>\<open>crosstab\<close> drop
  a row with a missing value in a key column.
\<close>

definition group_key :: "string list \<Rightarrow> row \<Rightarrow> string list option" where
  "group_key cols r = those (map (\<lambda>c. key_col c r) cols)"

text \<open>
  \<^verbatim>\<open>mean\<close> of a column within a group: the library's mean of the values that are
  not missing, and missing when there is none.
\<close>

definition mean_skipna :: "library \<Rightarrow> rat option list \<Rightarrow> rat option" where
  "mean_skipna lib vs =
     (case List.map_filter (\<lambda>v. v) vs of
        [] \<Rightarrow> None
      | x # xs \<Rightarrow> Some (group_mean lib (x # xs)))"

text \<open>
  One row of the result: the values of the grouping columns, the aggregates of
  lines 64 to 85 under their new names (the mean of \<^verbatim>\<open>Lead_Time\<close> keeps the name
  \<^verbatim>\<open>Lead_Time\<close> in the source and is \<open>Avg_Lead_Time\<close> here, \<^verbatim>\<open>Defect_Rate (%)\<close> is
  \<open>Defect_Rate_Pct\<close>), and the count of each order status.
\<close>

record result_row =
  Group_Key :: "string list"
  Avg_Negotiated_Price :: "rat option"
  Avg_Lead_Time :: "rat option"
  Defect_Rate_Pct :: "rat option"
  Total_Quantity :: int
  Total_Orders :: nat
  Status_Counts :: "(string \<times> nat) list"

record result_table =
  Group_Cols :: "string list"
  Status_Cols :: "string list"
  Rows :: "result_row list"

text \<open>\<^verbatim>\<open>pd.DataFrame()\<close>: no column, no row.\<close>

definition empty_DataFrame :: result_table where
  "empty_DataFrame = \<lparr>Group_Cols = [], Status_Cols = [], Rows = []\<rparr>"

definition is_empty :: "result_table \<Rightarrow> bool" where
  "is_empty t = (Rows t = [] \<or> Group_Cols t @ Status_Cols t = [])"

definition agg ::
  "library \<Rightarrow> string list \<Rightarrow> string list \<Rightarrow> row list \<Rightarrow> string list \<Rightarrow> result_row" where
  "agg lib cols statuses fdf k =
     (let g = filter (\<lambda>r. group_key cols r = Some k) fdf
      in \<lparr>Group_Key = k,
          Avg_Negotiated_Price = mean_skipna lib (map (\<lambda>r. Some (Negotiated_Price r)) g),
          Avg_Lead_Time = mean_skipna lib (map (\<lambda>r. map_option of_int (Lead_Time r)) g),
          Defect_Rate_Pct = mean_skipna lib (map Defect_Rate g),
          Total_Quantity = sum_list (map Quantity g),
          Total_Orders = length g,
          Status_Counts = map (\<lambda>s. (s, length (filter (\<lambda>r. Order_Status r = s) g))) statuses\<rparr>)"

text \<open>
  \<^verbatim>\<open>sort_values(by=['Defect_Rate (%)', 'Lead_Time', 'Avg_Negotiated_Price'])\<close>: a
  stable sort on the three columns in this priority, a missing value after every number.
\<close>

definition nan_last :: "rat option \<Rightarrow> bool \<times> rat" where
  "nan_last v = (case v of None \<Rightarrow> (True, 0) | Some x \<Rightarrow> (False, x))"

definition sort_cols :: "result_row \<Rightarrow> (bool \<times> rat) \<times> (bool \<times> rat) \<times> (bool \<times> rat)" where
  "sort_cols r =
     (nan_last (Defect_Rate_Pct r), nan_last (Avg_Lead_Time r), nan_last (Avg_Negotiated_Price r))"

definition sort_values :: "result_row list \<Rightarrow> result_row list" where
  "sort_values rs = sort_key sort_cols rs"

text \<open>
  Lines 60 to 101, from the filtered frame on. The groups come out of \<^verbatim>\<open>groupby\<close>
  in ascending order of their keys; the left merge with the status counts keeps that
  order; the sort is last.
\<close>

definition ranked_result :: "library \<Rightarrow> string \<Rightarrow> string \<Rightarrow> row list \<Rightarrow> result_table" where
  "ranked_result lib item_category compliance_preference fdf =
     (if fdf = [] then empty_DataFrame
      else
        (let cols = group_cols item_category compliance_preference;
             kept = filter (\<lambda>r. group_key cols r \<noteq> None) fdf;
             keys = sort (remdups (List.map_filter (group_key cols) fdf));
             statuses = sort (remdups (map Order_Status kept));
             result = map (agg lib cols statuses fdf) keys
         in \<lparr>Group_Cols = cols, Status_Cols = statuses, Rows = sort_values result\<rparr>))"

text \<open>
  Lines 43 to 101: \<^verbatim>\<open>recommend_suppliers\<close> on the table \<^verbatim>\<open>df\<close> of the module. The
  accessor of line 47 is evaluated, and can raise, only when \<^verbatim>\<open>item_category\<close> is not
  \<^verbatim>\<open>"All"\<close>.
\<close>

definition recommend_suppliers ::
  "library \<Rightarrow> row list \<Rightarrow> string \<Rightarrow> rat \<Rightarrow> rat \<Rightarrow> rat \<Rightarrow> string \<Rightarrow> py_error + result_table" where
  "recommend_suppliers lib df item_category max_price max_lead_time max_defect_rate
       compliance_preference =
     (case (if item_category \<noteq> ''All'' then str_accessor df else Inr ()) of
        Inl e \<Rightarrow> Inl e
      | Inr u \<Rightarrow>
          Inr (ranked_result lib item_category compliance_preference
                 (filtered_df lib df item_category max_price max_lead_time max_defect_rate
                    compliance_preference)))"

text \<open>The rows that a call returned; none when it raised.\<close>

definition returned_rows :: "py_error + result_table \<Rightarrow> result_row list" where
  "returned_rows res = (case res of Inl e \<Rightarrow> [] | Inr t \<Rightarrow> Rows t)"

section \<open>The fallback advisor\<close>

text \<open>
  Lines 140 to 169. When the engine returns an empty frame, it runs again with the
  defect and lead-time limits raised by 2 and the price limit by half, and every row
  of a non-empty answer gets a note, \<^verbatim>\<open>alasan(row)\<close>.
\<close>

definition alternatif ::
  "library \<Rightarrow> row list \<Rightarrow> string \<Rightarrow> rat \<Rightarrow> rat \<Rightarrow> rat \<Rightarrow> string \<Rightarrow> py_error + result_table" where
  "alternatif lib df item_category max_price max_lead_time max_defect_rate compliance_preference =
     (let toleransi_defect = max_defect_rate + 2;
          toleransi_lead = max_lead_time + 2;
          toleransi_price = max_price * (3 / 2)
      in recommend_suppliers lib df item_category toleransi_price toleransi_lead toleransi_defect
           compliance_preference)"

text \<open>Decimal digits of a natural number, and Python's formats \<^verbatim>\<open>:,\<close> and \<^verbatim>\<open>:.1f\<close>.\<close>

definition digit_char :: "nat \<Rightarrow> char" where
  "digit_char n = char_of (48 + n)"

fun digits :: "nat \<Rightarrow> string" where
  "digits n = (if n < 10 then [digit_char n] else digits (n div 10) @ [digit_char (n mod 10)])"

declare digits.simps [simp del]

fun group3 :: "string \<Rightarrow> string" where
  "group3 (a # b # c # d # rest) = a # b # c # CHR '','' # group3 (d # rest)"
| "group3 xs = xs"

definition fmt_commas :: "int \<Rightarrow> string" where
  "fmt_commas n = (if n < 0 then ''-'' else []) @ rev (group3 (rev (digits (nat \<bar>n\<bar>))))"

text \<open>\<^verbatim>\<open>int(x)\<close> drops the fraction, towards zero.\<close>

definition py_int :: "rat \<Rightarrow> int" where
  "py_int x = (if 0 \<le> x then \<lfloor>x\<rfloor> else \<lceil>x\<rceil>)"

definition fmt_1f :: "rat \<Rightarrow> string" where
  "fmt_1f x =
     (let n = nat (py_round (\<bar>x\<bar> * 10))
      in (if x < 0 then ''-'' else []) @ digits (n div 10) @ ''.'' @ [digit_char (n mod 10)])"

fun join :: "string \<Rightarrow> string list \<Rightarrow> string" where
  "join sep [] = []"
| "join sep [x] = x"
| "join sep (x # y # ys) = x @ sep @ join sep (y # ys)"

text \<open>
  \<^verbatim>\<open>alasan\<close>, lines 157 to 167. The lead-time note prints a float with \<^verbatim>\<open>str\<close>,
  whose digits depend on the float64 value; that printer is the parameter
  \<open>float_str\<close>. A comparison with a missing value is false, so nothing is noted for it.
\<close>

definition alasan :: "(rat \<Rightarrow> string) \<Rightarrow> rat \<Rightarrow> rat \<Rightarrow> rat \<Rightarrow> result_row \<Rightarrow> string" where
  "alasan float_str max_price max_lead_time max_defect_rate row =
     (let alasan_list =
            (case Defect_Rate_Pct row of
               None \<Rightarrow> []
             | Some d \<Rightarrow>
                 if \<bar>d - max_defect_rate\<bar> \<le> 2
                 then [''Defect Rate mendekati batas ('' @ fmt_1f d @ ''%)'']
                 else if max_defect_rate < d then [''Defect Rate '' @ fmt_1f d @ ''%'']
                 else [])
            @ (case Avg_Negotiated_Price row of
                 None \<Rightarrow> []
               | Some p \<Rightarrow>
                   if max_price < p
                   then [''Harga '' @ fmt_commas (py_int p) @ '' > '' @ fmt_commas (py_int max_price)]
                   else [])
            @ (case Avg_Lead_Time row of
                 None \<Rightarrow> []
               | Some l \<Rightarrow>
                   if max_lead_time < l then [''Lead Time '' @ float_str l @ '' hari''] else [])
      in join '', '' alasan_list)"

text \<open>\<^verbatim>\<open>alternatif['Catatan'] = alternatif.apply(alasan, axis=1)\<close>\<close>

definition Catatan ::
  "(rat \<Rightarrow> string) \<Rightarrow> library \<Rightarrow> row list \<Rightarrow> string \<Rightarrow> rat \<Rightarrow> rat \<Rightarrow> rat \<Rightarrow> string
     \<Rightarrow> string list" where
  "Catatan float_str lib df item_category max_price max_lead_time max_defect_rate
       compliance_preference =
     map (alasan float_str max_price max_lead_time max_defect_rate)
       (returned_rows (alternatif lib df item_category max_price max_lead_time max_defect_rate
                         compliance_preference))"

section \<open>Instances of the library\<close>







definition exact :: library where
  "exact = \<lparr>str_lower = ascii_lower, group_mean = mean\<rparr>"



section \<open>Example tables\<close>

text \<open>A raw order line of supplier Alpha, ordered on 2024-01-01 and not yet delivered.\<close>

definition po_open :: raw_row where
  "po_open =
     \<lparr>PO_ID = ''PO-004'', Supplier = ''Alpha'', Item_Category = Some ''Office Supplies'',
      Compliance = ''Yes'', Order_Status = ''Open'', Quantity = 100, Defective_Units = Some 5,
      Unit_Price = 2, Negotiated_Price = 1,
      Order_Date = days_from_civil 2024 1 1, Delivery_Date = None\<rparr>"

text \<open>Three delivered lines of Alpha with lead times 3, 5 and 7 days, and the open one.\<close>

definition raw_alpha :: "raw_row list" where
  "raw_alpha =
     [po_open\<lparr>PO_ID := ''PO-001'', Order_Status := ''Closed'',
        Order_Date := days_from_civil 2023 11 1, Delivery_Date := Some (days_from_civil 2023 11 4)\<rparr>,
      po_open\<lparr>PO_ID := ''PO-002'', Order_Status := ''Closed'',
        Order_Date := days_from_civil 2023 11 10, Delivery_Date := Some (days_from_civil 2023 11 15)\<rparr>,
      po_open\<lparr>PO_ID := ''PO-003'', Order_Status := ''Closed'',
        Order_Date := days_from_civil 2023 12 28, Delivery_Date := Some (days_from_civil 2024 1 4)\<rparr>,
      po_open]"

text \<open>The open line alone, with no delivered line of its supplier, and what it becomes.\<close>

definition row_open :: row where
  "row_open =
     \<lparr>PO_ID = ''PO-004'', Supplier = ''Alpha'', Item_Category = Some ''Office Supplies'',
      Compliance = ''Yes'', Order_Status = ''Open'', Quantity = 100, Defective_Units = Some 5,
      Unit_Price = 32000, Negotiated_Price = 16000,
      Order_Date = days_from_civil 2024 1 1, Delivery_Date = None,
      Lead_Time = None, Defect_Rate = Some 5\<rparr>"

text \<open>Two raw lines for the defect rate: nothing ordered, and 3 defective units of 40.\<close>

definition raw_quantities :: "raw_row list" where
  "raw_quantities =
     [po_open\<lparr>Quantity := 0, Defective_Units := Some 0\<rparr>,
      po_open\<lparr>Quantity := 40, Defective_Units := Some 3\<rparr>,
      po_open\<lparr>Quantity := 40, Defective_Units := None\<rparr>]"

text \<open>
  A canonical line: price 100000, lead time 3 days, defect rate 5 percent. The
  tables below vary it.
\<close>

definition line :: row where
  "line =
     \<lparr>PO_ID = ''PO-100'', Supplier = ''Alpha'', Item_Category = Some ''Office Supplies'',
      Compliance = ''Yes'', Order_Status = ''Closed'', Quantity = 100, Defective_Units = Some 5,
      Unit_Price = 120000, Negotiated_Price = 100000,
      Order_Date = days_from_civil 2024 1 1, Delivery_Date = Some (days_from_civil 2024 1 4),
      Lead_Time = Some 3, Defect_Rate = Some 5\<rparr>"

text \<open>Three suppliers with defect rates 5, 2, 2 and lead times 3, 1, 4.\<close>

definition df_three :: "row list" where
  "df_three =
     [line,
      line\<lparr>PO_ID := ''PO-101'', Supplier := ''Beta'', Lead_Time := Some 1, Defect_Rate := Some 2\<rparr>,
      line\<lparr>PO_ID := ''PO-102'', Supplier := ''Gamma'', Lead_Time := Some 4, Defect_Rate := Some 2\<rparr>]"

text \<open>Two suppliers with defect rates 6.5 and 5.5, for a query that allows 5.\<close>

definition df_defect :: "row list" where
  "df_defect =
     [line\<lparr>Defect_Rate := Some (13 / 2)\<rparr>,
      line\<lparr>PO_ID := ''PO-101'', Supplier := ''Beta'', Defect_Rate := Some (11 / 2)\<rparr>]"

text \<open>
  Two more suppliers for the rounding of the imputation: Beta with lead times 2 and 3
  (mean 2.5), Gamma with lead times 3 and 4 (mean 3.5), and an open order of each.
\<close>

definition raw_halves :: "raw_row list" where
  "raw_halves =
     [po_open\<lparr>PO_ID := ''PO-011'', Supplier := ''Beta'', Order_Status := ''Closed'',
        Order_Date := days_from_civil 2023 11 1, Delivery_Date := Some (days_from_civil 2023 11 3)\<rparr>,
      po_open\<lparr>PO_ID := ''PO-012'', Supplier := ''Beta'', Order_Status := ''Closed'',
        Order_Date := days_from_civil 2023 11 10, Delivery_Date := Some (days_from_civil 2023 11 13)\<rparr>,
      po_open\<lparr>PO_ID := ''PO-013'', Supplier := ''Beta''\<rparr>,
      po_open\<lparr>PO_ID := ''PO-021'', Supplier := ''Gamma'', Order_Status := ''Closed'',
        Order_Date := days_from_civil 2023 11 1, Delivery_Date := Some (days_from_civil 2023 11 4)\<rparr>,
      po_open\<lparr>PO_ID := ''PO-022'', Supplier := ''Gamma'', Order_Status := ''Closed'',
        Order_Date := days_from_civil 2023 11 10, Delivery_Date := Some (days_from_civil 2023 11 14)\<rparr>,
      po_open\<lparr>PO_ID := ''PO-023'', Supplier := ''Gamma''\<rparr>]"

text \<open>
  Lines that differ from \<^const>\<open>line\<close> in one column each: the category in capitals,
  another category, no category, not compliant, and one unit above each limit of the
  query (price 100000, lead time 3, defect rate 5).
\<close>

definition df_mixed :: "row list" where
  "df_mixed =
     [line,
      line\<lparr>PO_ID := ''PO-201'', Item_Category := Some ''OFFICE SUPPLIES''\<rparr>,
      line\<lparr>PO_ID := ''PO-202'', Item_Category := Some ''MRO''\<rparr>,
      line\<lparr>PO_ID := ''PO-203'', Item_Category := None\<rparr>,
      line\<lparr>PO_ID := ''PO-204'', Compliance := ''No''\<rparr>,
      line\<lparr>PO_ID := ''PO-205'', Negotiated_Price := 100001\<rparr>,
      line\<lparr>PO_ID := ''PO-206'', Lead_Time := Some 4\<rparr>,
      line\<lparr>PO_ID := ''PO-207'', Defect_Rate := Some 6\<rparr>]"

text \<open>A table in which no line has a category.\<close>

definition df_no_category :: "row list" where
  "df_no_category = [line\<lparr>Item_Category := None\<rparr>]"



section \<open>Facts about the preprocessing\<close>

lemma defect_rate_cases:
  "defect_rate r =
     (if Quantity r = 0 then Inr (Some 0)
      else Inr (map_option (\<lambda>u. of_int u / of_int (Quantity r) * 100) (Defective_Units r)))"
  by (simp add: defect_rate_def py_truediv_def split: option.split)

lemma apply_rows_Inr:
  "(\<And>x. x \<in> set xs \<Longrightarrow> f x = Inr (g x)) \<Longrightarrow> apply_rows f xs = Inr (map g xs)"
  by (induction xs) auto

lemma derive_row_Inr:
  "derive_row r =
     Inr (raw_row.extend r (row.fields (lead_time r)
       (if Quantity r = 0 then Some 0
        else map_option (\<lambda>u. of_int u / of_int (Quantity r) * 100) (Defective_Units r))))"
  by (simp add: derive_row_def defect_rate_cases)

lemma lead_time_convert_prices [simp]: "lead_time (convert_prices r) = lead_time r"
  by (simp add: lead_time_def convert_prices_def)

lemma ref_lead_times_convert_prices [simp]:
  "ref_lead_times (map convert_prices raw) s = ref_lead_times raw s"
  by (induction raw) (simp_all add: ref_lead_times_def convert_prices_def lead_time_def split: option.split)

lemma mean_lead_time_convert_prices [simp]:
  "mean_lead_time (map convert_prices raw) = mean_lead_time raw"
  by (rule ext) (simp add: mean_lead_time_def)

lemma isi_delivery_date_convert_prices [simp]:
  "isi_delivery_date mlt (convert_prices r) = isi_delivery_date mlt r"
  by (simp add: isi_delivery_date_def convert_prices_def split: option.split)

lemma preprocess_fields:
  "\<exists>df. preprocess raw = Inr df \<and> length df = length raw \<and>
     (\<forall>i<length raw.
        Supplier (df ! i) = Supplier (raw ! i) \<and>
        Quantity (df ! i) = Quantity (raw ! i) \<and>
        Order_Date (df ! i) = Order_Date (raw ! i) \<and>
        Negotiated_Price (df ! i) = Negotiated_Price (raw ! i) * usd_to_idr \<and>
        Defective_Units (df ! i) = fillna0 (Defective_Units (raw ! i)) \<and>
        Delivery_Date (df ! i) = isi_delivery_date (mean_lead_time raw) (raw ! i) \<and>
        Lead_Time (df ! i) = map_option (\<lambda>d. d - Order_Date (raw ! i)) (Delivery_Date (df ! i)) \<and>
        Defect_Rate (df ! i) =
          (if Quantity (raw ! i) = 0 then Some 0
           else map_option (\<lambda>u. of_int u / of_int (Quantity (raw ! i)) * 100)
                  (fillna0 (Defective_Units (raw ! i)))))"
proof -
  let ?g = "\<lambda>r. raw_row.extend r (row.fields (lead_time r)
       (if Quantity r = 0 then Some 0
        else map_option (\<lambda>u. of_int u / of_int (Quantity r) * 100) (Defective_Units r)))"
  let ?h = "\<lambda>r. ?g (impute_row (mean_lead_time raw) (convert_prices r))"
  have "preprocess raw = Inr (map ?h raw)"
    unfolding preprocess_def Let_def
    by (simp add: apply_rows_Inr [where g = ?g] derive_row_Inr comp_def)
  moreover have "length (map ?h raw) = length raw"
    by simp
  moreover have "\<forall>i<length raw.
        Supplier (map ?h raw ! i) = Supplier (raw ! i) \<and>
        Quantity (map ?h raw ! i) = Quantity (raw ! i) \<and>
        Order_Date (map ?h raw ! i) = Order_Date (raw ! i) \<and>
        Negotiated_Price (map ?h raw ! i) = Negotiated_Price (raw ! i) * usd_to_idr \<and>
        Defective_Units (map ?h raw ! i) = fillna0 (Defective_Units (raw ! i)) \<and>
        Delivery_Date (map ?h raw ! i) = isi_delivery_date (mean_lead_time raw) (raw ! i) \<and>
        Lead_Time (map ?h raw ! i) = map_option (\<lambda>d. d - Order_Date (raw ! i)) (Delivery_Date (map ?h raw ! i)) \<and>
        Defect_Rate (map ?h raw ! i) =
          (if Quantity (raw ! i) = 0 then Some 0
           else map_option (\<lambda>u. of_int u / of_int (Quantity (raw ! i)) * 100)
                  (fillna0 (Defective_Units (raw ! i))))"
    by (simp add: raw_row.defs row.defs impute_row_def convert_prices_def lead_time_def
        isi_delivery_date_def split: option.split)
  ultimately show ?thesis
    by blast
qed

lemma ref_lead_times_Nil_iff:
  "ref_lead_times raw s = [] \<longleftrightarrow> \<not> (\<exists>r\<in>set raw. Supplier r = s \<and> Delivery_Date r \<noteq> None)"
  by (induction raw) (auto simp: ref_lead_times_def lead_time_def split: option.splits)

lemma fillna0_cases: "fillna0 v = Some (case v of None \<Rightarrow> 0 | Some u \<Rightarrow> u)"
  by (simp add: fillna0_def split: option.split)


lemma py_round_nearest:
  "\<bar>of_int (py_round x) - x\<bar> \<le> 1 / 2 \<and>
   (\<bar>of_int (py_round x) - x\<bar> = 1 / 2 \<longrightarrow> even (py_round x))"
proof -
  define f where "f = \<lfloor>x\<rfloor>"
  define d where "d = x - of_int f"
  have d: "0 \<le> d" "d < 1"
    unfolding d_def f_def by linarith+
  have x: "x = of_int f + d"
    by (simp add: d_def)
  have r: "py_round x =
      (if d < 1 / 2 then f else if 1 / 2 < d then f + 1 else if even f then f else f + 1)"
    by (simp add: py_round_def Let_def f_def d_def)
  consider "d < 1 / 2" | "1 / 2 < d" | "d = 1 / 2" "even f" | "d = 1 / 2" "odd f"
    by fastforce
  then show ?thesis
  proof cases
    case 1
    with d r x show ?thesis by simp
  next
    case 2
    with d r x show ?thesis by simp
  next
    case 3
    with d r x show ?thesis by simp
  next
    case 4
    with d r x show ?thesis by simp
  qed
qed


lemma mean_lead_time_cases:
  "mean_lead_time raw s =
     (if \<exists>r\<in>set raw. Supplier r = s \<and> Delivery_Date r \<noteq> None
      then Some (mean (map of_int (ref_lead_times raw s))) else None)"
  using ref_lead_times_Nil_iff [of raw s]
  by (cases "ref_lead_times raw s") (simp_all add: mean_lead_time_def)

lemma ref_lead_times_explicit:
  "ref_lead_times raw s =
     concat (map (\<lambda>r. case Delivery_Date r of None \<Rightarrow> [] | Some d \<Rightarrow> [d - Order_Date r])
       (filter (\<lambda>r. Supplier r = s) raw))"
  by (induction raw) (simp_all add: ref_lead_times_def lead_time_def split: option.split)

section \<open>Facts about the filter\<close>

lemma filtered_df_eq:
  "filtered_df lib df ic mp ml md cp =
     filter (\<lambda>r. (ic = ''All'' \<or>
                    map_option (str_lower lib) (Item_Category r) = Some (str_lower lib ic)) \<and>
                 (cp = ''Yes'' \<longrightarrow> Compliance r = ''Yes'') \<and>
                 (cp = ''No'' \<longrightarrow> Compliance r = ''No'') \<and>
                 price_ok mp r \<and> lead_ok ml r \<and> defect_ok md r) df"
  by (auto simp: filtered_df_def Let_def intro: filter_cong)

lemma le_nan_iff: "le_nan v m \<longleftrightarrow> (\<exists>x. v = Some x \<and> x \<le> m)"
  by (cases v) (simp_all add: le_nan_def)

lemma le_nan_mono: "le_nan v m \<Longrightarrow> m \<le> m' \<Longrightarrow> le_nan v m'"
  by (auto simp: le_nan_iff)

lemma length_filter_mono:
  "(\<And>x. x \<in> set xs \<Longrightarrow> P x \<Longrightarrow> Q x) \<Longrightarrow> length (filter P xs) \<le> length (filter Q xs)"
  by (induction xs) auto

lemma filtered_df_subset:
  "r \<in> set (filtered_df lib df ic mp ml md cp) \<Longrightarrow>
     r \<in> set df \<and> price_ok mp r \<and> lead_ok ml r \<and> defect_ok md r"
  by (simp add: filtered_df_eq)

lemma filtered_df_category:
  "r \<in> set (filtered_df lib df ic mp ml md cp) \<Longrightarrow> ic \<noteq> ''All'' \<Longrightarrow> Item_Category r \<noteq> None"
  by (auto simp: filtered_df_eq)

lemma lead_ok_iff: "lead_ok ml r \<longleftrightarrow> (\<exists>l. Lead_Time r = Some l \<and> of_int l \<le> ml)"
  by (cases "Lead_Time r") (simp_all add: lead_ok_def le_nan_def)

lemma defect_ok_iff: "defect_ok md r \<longleftrightarrow> (\<exists>d. Defect_Rate r = Some d \<and> d \<le> md)"
  by (simp add: defect_ok_def le_nan_iff)

lemma lead_ok_None: "Lead_Time r = None \<Longrightarrow> \<not> lead_ok ml r"
  by (simp add: lead_ok_def le_nan_def)

lemma of_char_lower_char:
  "(of_char (lower_char c) :: nat) =
     (if 65 \<le> (of_char c :: nat) \<and> (of_char c :: nat) \<le> 90 then of_char c + 32 else of_char c)"
  by (simp add: lower_char_def less_eq_char_def)

lemma lower_char_eq_iff:
  "lower_char a = lower_char b \<longleftrightarrow>
     a = b \<or>
     (CHR ''A'' \<le> a \<and> a \<le> CHR ''Z'' \<and> (of_char b :: nat) = of_char a + 32) \<or>
     (CHR ''A'' \<le> b \<and> b \<le> CHR ''Z'' \<and> (of_char a :: nat) = of_char b + 32)"
proof -
  have "lower_char a = lower_char b \<longleftrightarrow>
      (of_char (lower_char a) :: nat) = of_char (lower_char b)"
    by simp
  also have "\<dots> \<longleftrightarrow>
     (of_char a :: nat) = of_char b \<or>
     (65 \<le> (of_char a :: nat) \<and> (of_char a :: nat) \<le> 90 \<and> (of_char b :: nat) = of_char a + 32) \<or>
     (65 \<le> (of_char b :: nat) \<and> (of_char b :: nat) \<le> 90 \<and> (of_char a :: nat) = of_char b + 32)"
    unfolding of_char_lower_char by (simp only: split: if_split) arith
  finally show ?thesis
    by (simp add: less_eq_char_def)
qed

lemma ascii_lower_eq_iff:
  "ascii_lower c = ascii_lower d \<longleftrightarrow>
     list_all2 (\<lambda>a b. a = b \<or>
        (CHR ''A'' \<le> a \<and> a \<le> CHR ''Z'' \<and> (of_char b :: nat) = of_char a + 32) \<or>
        (CHR ''A'' \<le> b \<and> b \<le> CHR ''Z'' \<and> (of_char a :: nat) = of_char b + 32)) c d"
proof (induction c arbitrary: d)
  case Nil
  then show ?case by (simp add: ascii_lower_def)
next
  case (Cons a c)
  show ?case
  proof (cases d)
    case Nil
    then show ?thesis by (simp add: ascii_lower_def)
  next
    case (Cons b d')
    with Cons.IH [of d'] show ?thesis
      by (simp add: ascii_lower_def lower_char_eq_iff)
  qed
qed

section \<open>Facts about the call, the groups and the sort\<close>

lemma recommend_suppliers_cases:
  "recommend_suppliers lib df ic mp ml md cp =
     (if ic \<noteq> ''All'' \<and> df \<noteq> [] \<and> (\<forall>r\<in>set df. Item_Category r = None)
      then Inl AttributeError
      else Inr (ranked_result lib ic cp (filtered_df lib df ic mp ml md cp)))"
  by (simp add: recommend_suppliers_def str_accessor_def list_all_iff)

lemma recommend_suppliers_returns:
  assumes "filtered_df lib df ic mp ml md cp \<noteq> []"
  shows "recommend_suppliers lib df ic mp ml md cp =
           Inr (ranked_result lib ic cp (filtered_df lib df ic mp ml md cp))"
proof -
  from assms obtain r where r: "r \<in> set (filtered_df lib df ic mp ml md cp)"
    by (cases "filtered_df lib df ic mp ml md cp") auto
  then have "r \<in> set df" "ic \<noteq> ''All'' \<longrightarrow> Item_Category r \<noteq> None"
    using filtered_df_subset [OF r] filtered_df_category [OF r] by blast+
  then show ?thesis
    unfolding recommend_suppliers_cases by auto
qed

lemma returned_rows_subset:
  "row \<in> set (returned_rows (recommend_suppliers lib df ic mp ml md cp)) \<Longrightarrow>
     recommend_suppliers lib df ic mp ml md cp =
       Inr (ranked_result lib ic cp (filtered_df lib df ic mp ml md cp)) \<and>
     row \<in> set (Rows (ranked_result lib ic cp (filtered_df lib df ic mp ml md cp)))"
  by (auto simp: recommend_suppliers_cases returned_rows_def split: if_splits)

lemma set_map_filter_conv: "set (List.map_filter f xs) = {y. \<exists>x\<in>set xs. f x = Some y}"
  by (induction xs) (auto split: option.splits)

lemma empty_DataFrame_Rows [simp]: "Rows empty_DataFrame = []"
  by (simp add: empty_DataFrame_def)

lemma Rows_ranked_result:
  "Rows (ranked_result lib ic cp fdf) =
     (if fdf = [] then []
      else sort_values
        (map (agg lib (group_cols ic cp)
                (sort (remdups (map Order_Status
                   (filter (\<lambda>r. group_key (group_cols ic cp) r \<noteq> None) fdf))))
                fdf)
           (sort (remdups (List.map_filter (group_key (group_cols ic cp)) fdf)))))"
  by (simp add: ranked_result_def Let_def)

lemma result_row_is_group:
  assumes "row \<in> set (Rows (ranked_result lib ic cp fdf))"
  shows "\<exists>st k r. row = agg lib (group_cols ic cp) st fdf k \<and>
           r \<in> set fdf \<and> group_key (group_cols ic cp) r = Some k"
  using assms
  by (auto simp: Rows_ranked_result sort_values_def set_map_filter_conv split: if_splits)




lemma map_filter_map_Some [simp]: "List.map_filter (\<lambda>v. v) (map Some xs) = xs"
  by (induction xs) simp_all

lemma mean_skipna_map_Some:
  "xs \<noteq> [] \<Longrightarrow> mean_skipna lib (map Some xs) = Some (group_mean lib xs)"
  by (cases xs) (simp_all add: mean_skipna_def)

lemma all_Some_map:
  "(\<And>x. x \<in> set xs \<Longrightarrow> \<exists>y. f x = Some y \<and> P y) \<Longrightarrow>
     \<exists>ys. map f xs = map Some ys \<and> (\<forall>y\<in>set ys. P y)"
proof (induction xs)
  case Nil
  then show ?case by simp
next
  case (Cons x xs)
  then obtain ys where ys: "map f xs = map Some ys" "\<forall>y\<in>set ys. P y"
    by auto
  from Cons.prems [of x] obtain y where "f x = Some y" "P y"
    by auto
  with ys have "map f (x # xs) = map Some (y # ys) \<and> (\<forall>z\<in>set (y # ys). P z)"
    by simp
  then show ?case
    by blast
qed

lemma agg_group:
  assumes r: "r \<in> set fdf" "group_key cols r = Some k"
    and ok: "\<And>x. x \<in> set fdf \<Longrightarrow> price_ok mp x \<and> lead_ok ml x \<and> defect_ok md x"
  shows "\<exists>g ls ds.
           g = filter (\<lambda>x. group_key cols x = Some (Group_Key (agg lib cols st fdf k))) fdf \<and>
           g \<noteq> [] \<and>
           Total_Orders (agg lib cols st fdf k) = length g \<and>
           map (\<lambda>x. map_option of_int (Lead_Time x)) g = map Some ls \<and>
           map Defect_Rate g = map Some ds \<and>
           (\<forall>x\<in>set g. Negotiated_Price x \<le> mp) \<and>
           (\<forall>l\<in>set ls. l \<le> ml) \<and>
           (\<forall>d\<in>set ds. d \<le> md) \<and>
           Avg_Negotiated_Price (agg lib cols st fdf k) = Some (group_mean lib (map Negotiated_Price g)) \<and>
           Avg_Lead_Time (agg lib cols st fdf k) = Some (group_mean lib ls) \<and>
           Defect_Rate_Pct (agg lib cols st fdf k) = Some (group_mean lib ds)"
proof -
  let ?g = "filter (\<lambda>x. group_key cols x = Some k) fdf"
  from r have ne: "?g \<noteq> []"
    by (auto simp: filter_empty_conv)
  have in_g: "\<And>x. x \<in> set ?g \<Longrightarrow> price_ok mp x \<and> lead_ok ml x \<and> defect_ok md x"
    using ok by simp
  from in_g obtain ls where
    ls: "map (\<lambda>x. map_option of_int (Lead_Time x)) ?g = map Some ls" "\<forall>l\<in>set ls. l \<le> ml"
    using all_Some_map [of ?g "\<lambda>x. map_option of_int (Lead_Time x)" "\<lambda>l. l \<le> ml"]
    by (fastforce simp: lead_ok_iff)
  from in_g obtain ds where
    ds: "map Defect_Rate ?g = map Some ds" "\<forall>d\<in>set ds. d \<le> md"
    using all_Some_map [of ?g Defect_Rate "\<lambda>d. d \<le> md"]
    by (fastforce simp: defect_ok_iff)
  from ls(1) ds(1) ne have ne': "ls \<noteq> []" "ds \<noteq> []"
    by auto
  have price: "\<forall>x\<in>set ?g. Negotiated_Price x \<le> mp"
    using in_g by (simp add: price_ok_def)
  have p: "Avg_Negotiated_Price (agg lib cols st fdf k) = Some (group_mean lib (map Negotiated_Price ?g))"
    using mean_skipna_map_Some [of "map Negotiated_Price ?g" lib] ne
    by (simp add: agg_def Let_def comp_def)
  have l: "Avg_Lead_Time (agg lib cols st fdf k) = Some (group_mean lib ls)"
    using mean_skipna_map_Some [OF ne'(1), of lib] ls(1)
    by (simp add: agg_def Let_def)
  have d: "Defect_Rate_Pct (agg lib cols st fdf k) = Some (group_mean lib ds)"
    using mean_skipna_map_Some [OF ne'(2), of lib] ds(1)
    by (simp add: agg_def Let_def)
  have k: "Group_Key (agg lib cols st fdf k) = k" "Total_Orders (agg lib cols st fdf k) = length ?g"
    by (simp_all add: agg_def Let_def)
  from ne ls ds price p l d k show ?thesis
    by (intro exI [of _ ?g] exI [of _ ls] exI [of _ ds]) simp
qed

lemma result_row_group:
  assumes "row \<in> set (returned_rows (recommend_suppliers lib df ic mp ml md cp))"
  shows "\<exists>g ls ds.
           g = filter (\<lambda>x. group_key (group_cols ic cp) x = Some (Group_Key row))
                 (filtered_df lib df ic mp ml md cp) \<and>
           g \<noteq> [] \<and>
           Total_Orders row = length g \<and>
           map (\<lambda>x. map_option of_int (Lead_Time x)) g = map Some ls \<and>
           map Defect_Rate g = map Some ds \<and>
           (\<forall>x\<in>set g. Negotiated_Price x \<le> mp) \<and>
           (\<forall>l\<in>set ls. l \<le> ml) \<and>
           (\<forall>d\<in>set ds. d \<le> md) \<and>
           Avg_Negotiated_Price row = Some (group_mean lib (map Negotiated_Price g)) \<and>
           Avg_Lead_Time row = Some (group_mean lib ls) \<and>
           Defect_Rate_Pct row = Some (group_mean lib ds)"
proof -
  from returned_rows_subset [OF assms]
  have "row \<in> set (Rows (ranked_result lib ic cp (filtered_df lib df ic mp ml md cp)))"
    by simp
  from result_row_is_group [OF this] obtain st k r where
    row: "row = agg lib (group_cols ic cp) st (filtered_df lib df ic mp ml md cp) k" and
    r: "r \<in> set (filtered_df lib df ic mp ml md cp)" "group_key (group_cols ic cp) r = Some k"
    by blast
  from agg_group [OF r, of mp ml md lib st] filtered_df_subset [of _ lib df ic mp ml md cp]
  show ?thesis
    unfolding row by blast
qed

lemma result_row_values:
  assumes "row \<in> set (returned_rows (recommend_suppliers lib df ic mp ml md cp))"
  shows "\<exists>d l p. Defect_Rate_Pct row = Some d \<and> Avg_Lead_Time row = Some l \<and>
           Avg_Negotiated_Price row = Some p"
  using result_row_group [OF assms] by blast

lemma those_eq_Some: "those xs = Some ys \<longleftrightarrow> xs = map Some ys"
  by (induction xs arbitrary: ys) (auto split: option.splits)

lemma group_key_eq_Some:
  "group_key (group_cols ic cp) r = Some k \<longleftrightarrow>
     map Some k =
       [Some (Supplier r)]
       @ (if ic = ''All'' then [Item_Category r] else [])
       @ (if cp = ''All'' then [Some (Compliance r)] else [])"
  by (auto simp: group_key_def group_cols_def key_col_def those_eq_Some)

lemma Group_Key_agg [simp]: "Group_Key (agg lib cols st fdf k) = k"
  by (simp add: agg_def Let_def)

lemma insort_key_lex:
  fixes sc :: "'a \<Rightarrow> 'b::linorder" and gk :: "'a \<Rightarrow> 'c::order"
  assumes "sorted_wrt (\<lambda>a b. sc a < sc b \<or> sc a = sc b \<and> gk a < gk b) ys"
    and "\<forall>y\<in>set ys. gk x < gk y"
  shows "sorted_wrt (\<lambda>a b. sc a < sc b \<or> sc a = sc b \<and> gk a < gk b) (insort_key sc x ys)"
  using assms
proof (induction ys)
  case Nil
  then show ?case by simp
next
  case (Cons y ys)
  show ?case
  proof (cases "sc x \<le> sc y")
    case True
    have "sc x < sc z \<or> sc x = sc z \<and> gk x < gk z" if "z \<in> set (y # ys)" for z
    proof -
      from Cons.prems(1) that have "sc y \<le> sc z"
        by auto
      with True have "sc x \<le> sc z"
        by simp
      moreover from Cons.prems(2) that have "gk x < gk z"
        by auto
      ultimately show ?thesis
        by auto
    qed
    with True Cons.prems(1) show ?thesis
      by simp
  next
    case False
    with Cons show ?thesis
      by (auto simp: set_insort_key)
  qed
qed

lemma sort_key_lex:
  fixes sc :: "'a \<Rightarrow> 'b::linorder" and gk :: "'a \<Rightarrow> 'c::order"
  assumes "sorted_wrt (<) (map gk xs)"
  shows "sorted_wrt (\<lambda>a b. sc a < sc b \<or> sc a = sc b \<and> gk a < gk b) (sort_key sc xs)"
  using assms
proof (induction xs)
  case Nil
  then show ?case by simp
next
  case (Cons x xs)
  then have "\<forall>y\<in>set (sort_key sc xs). gk x < gk y"
    by auto
  with Cons show ?case
    by (simp add: insort_key_lex)
qed

lemma Rows_lex_sorted:
  "sorted_wrt (\<lambda>a b. sort_cols a < sort_cols b \<or> sort_cols a = sort_cols b \<and> Group_Key a < Group_Key b)
     (Rows (ranked_result lib ic cp fdf))"
proof (cases "fdf = []")
  case True
  then show ?thesis
    by (simp add: Rows_ranked_result)
next
  case False
  let ?keys = "sort (remdups (List.map_filter (group_key (group_cols ic cp)) fdf))"
  have "sorted_wrt (<) ?keys"
    by (simp add: strict_sorted_iff)
  then have "sorted_wrt (<) (map Group_Key (map (agg lib (group_cols ic cp)
                (sort (remdups (map Order_Status
                   (filter (\<lambda>r. group_key (group_cols ic cp) r \<noteq> None) fdf))))
                fdf) ?keys))"
    by (simp add: comp_def)
  then show ?thesis
    unfolding Rows_ranked_result sort_values_def using False
    by (simp add: sort_key_lex)
qed

lemma returned_rows_lex_sorted:
  "sorted_wrt (\<lambda>a b. sort_cols a < sort_cols b \<or> sort_cols a = sort_cols b \<and> Group_Key a < Group_Key b)
     (returned_rows (recommend_suppliers lib df ic mp ml md cp))"
  using Rows_lex_sorted [of lib ic cp "filtered_df lib df ic mp ml md cp"]
  by (simp add: recommend_suppliers_cases returned_rows_def)

lemma sort_cols_less:
  assumes "Defect_Rate_Pct a = Some d" "Avg_Lead_Time a = Some l" "Avg_Negotiated_Price a = Some p"
    and "Defect_Rate_Pct b = Some d'" "Avg_Lead_Time b = Some l'" "Avg_Negotiated_Price b = Some p'"
  shows "sort_cols a < sort_cols b \<longleftrightarrow> d < d' \<or> d = d' \<and> (l < l' \<or> l = l' \<and> p < p')"
    and "sort_cols a = sort_cols b \<longleftrightarrow> d = d' \<and> l = l' \<and> p = p'"
  using assms by (auto simp: sort_cols_def nan_last_def)

lemma digits_first: "\<exists>k cs. k < 10 \<and> digits n = digit_char k # cs"
proof (induction n rule: digits.induct)
  case (1 n)
  show ?case
  proof (cases "n < 10")
    case True
    then show ?thesis
      by (subst digits.simps) auto
  next
    case False
    with 1 obtain k cs where "k < 10" "digits (n div 10) = digit_char k # cs"
      by blast
    with False show ?thesis
      by (subst digits.simps) auto
  qed
qed

lemma digit_char_not_m: "k < 10 \<Longrightarrow> digit_char k \<noteq> CHR ''m''"
proof
  assume k: "k < 10" and eq: "digit_char k = CHR ''m''"
  from eq have "of_char (digit_char k) = (of_char (CHR ''m'') :: nat)"
    by simp
  with k show False
    by (simp add: digit_char_def)
qed

lemma fmt_1f_first: "\<exists>c cs. fmt_1f x = c # cs \<and> c \<noteq> CHR ''m''"
proof -
  obtain k cs where "k < 10" "digits (nat (py_round (\<bar>x\<bar> * 10)) div 10) = digit_char k # cs"
    using digits_first by blast
  then show ?thesis
    using digit_char_not_m [of k] by (auto simp: fmt_1f_def Let_def)
qed


lemma join_Cons: "join sep (x # xs) = x @ (if xs = [] then [] else sep @ join sep xs)"
  by (cases xs) simp_all

lemma alasan_shape:
  assumes "Defect_Rate_Pct row = Some d"
  shows "\<exists>rest. (rest = [] \<or> (\<exists>t ts. rest = (CHR ''H'' # t) # ts) \<or> (\<exists>t ts. rest = (CHR ''L'' # t) # ts)) \<and>
           alasan fs mp ml md row =
             join '', ''
               ((if \<bar>d - md\<bar> \<le> 2 then [''Defect Rate mendekati batas ('' @ fmt_1f d @ ''%)'']
                 else if md < d then [''Defect Rate '' @ fmt_1f d @ ''%'']
                 else []) @ rest)"
proof -
  let ?P = "case Avg_Negotiated_Price row of
                 None \<Rightarrow> []
               | Some p \<Rightarrow>
                   if mp < p
                   then [''Harga '' @ fmt_commas (py_int p) @ '' > '' @ fmt_commas (py_int mp)]
                   else []"
  let ?L = "case Avg_Lead_Time row of
                 None \<Rightarrow> []
               | Some l \<Rightarrow>
                   if ml < l then [''Lead Time '' @ fs l @ '' hari''] else []"
  have "?P @ ?L = [] \<or> (\<exists>t ts. ?P @ ?L = (CHR ''H'' # t) # ts) \<or> (\<exists>t ts. ?P @ ?L = (CHR ''L'' # t) # ts)"
    by (auto split: option.splits)
  moreover have "alasan fs mp ml md row =
             join '', ''
               ((if \<bar>d - md\<bar> \<le> 2 then [''Defect Rate mendekati batas ('' @ fmt_1f d @ ''%)'']
                 else if md < d then [''Defect Rate '' @ fmt_1f d @ ''%'']
                 else []) @ (?P @ ?L))"
    using assms by (simp add: alasan_def Let_def del: join.simps)
  ultimately show ?thesis
    by blast
qed

lemma not_prefix_exceeds_near:
  "c \<noteq> CHR ''m'' \<Longrightarrow>
     \<not> prefix (''Defect Rate '' @ (c # cs) @ s) (''Defect Rate mendekati batas ('' @ u)"
  by simp

lemma not_prefix_near_exceeds:
  "c \<noteq> CHR ''m'' \<Longrightarrow>
     \<not> prefix (''Defect Rate mendekati batas ('' @ u) (''Defect Rate '' @ (c # cs) @ s)"
  by auto

section \<open>The claims\<close>

text \<open>
  C8. The guard on \<^verbatim>\<open>Quantity\<close> makes the defect rate total: \<^const>\<open>defect_rate\<close>
  never returns an error, so the preprocessing returns a table with one row for every
  raw row. In that table a row with \<^verbatim>\<open>Quantity == 0\<close> has defect rate 0, and a row
  with another quantity has \<^verbatim>\<open>Defective_Units / Quantity * 100\<close>, where
  \<^verbatim>\<open>Defective_Units\<close> is the filled value of the table.
\<close>

theorem defect_rate_zero_quantity:
  "(\<forall>e. defect_rate r \<noteq> Inl e) \<and>
   (\<exists>df. preprocess raw = Inr df \<and> length df = length raw \<and>
      (\<forall>i<length raw.
         Quantity (df ! i) = Quantity (raw ! i) \<and>
         (Quantity (df ! i) = 0 \<longrightarrow> Defect_Rate (df ! i) = Some 0) \<and>
         (Quantity (df ! i) \<noteq> 0 \<longrightarrow>
            (\<exists>u. Defective_Units (df ! i) = Some u \<and>
                 Defect_Rate (df ! i) = Some (of_int u / of_int (Quantity (df ! i)) * 100)))))"
proof
  show "\<forall>e. defect_rate r \<noteq> Inl e"
    by (simp add: defect_rate_cases)
next
  from preprocess_fields [of raw] obtain df where
    df: "preprocess raw = Inr df" "length df = length raw" and
    fields: "\<And>i. i < length raw \<Longrightarrow>
        Quantity (df ! i) = Quantity (raw ! i) \<and>
        Defective_Units (df ! i) = fillna0 (Defective_Units (raw ! i)) \<and>
        Defect_Rate (df ! i) =
          (if Quantity (raw ! i) = 0 then Some 0
           else map_option (\<lambda>u. of_int u / of_int (Quantity (raw ! i)) * 100)
                  (fillna0 (Defective_Units (raw ! i))))"
    by blast
  have "Quantity (df ! i) = Quantity (raw ! i) \<and>
         (Quantity (df ! i) = 0 \<longrightarrow> Defect_Rate (df ! i) = Some 0) \<and>
         (Quantity (df ! i) \<noteq> 0 \<longrightarrow>
            (\<exists>u. Defective_Units (df ! i) = Some u \<and>
                 Defect_Rate (df ! i) = Some (of_int u / of_int (Quantity (df ! i)) * 100)))"
    if "i < length raw" for i
    using fields [OF that] by (simp add: fillna0_cases)
  with df show "\<exists>df. preprocess raw = Inr df \<and> length df = length raw \<and>
      (\<forall>i<length raw.
         Quantity (df ! i) = Quantity (raw ! i) \<and>
         (Quantity (df ! i) = 0 \<longrightarrow> Defect_Rate (df ! i) = Some 0) \<and>
         (Quantity (df ! i) \<noteq> 0 \<longrightarrow>
            (\<exists>u. Defective_Units (df ! i) = Some u \<and>
                 Defect_Rate (df ! i) = Some (of_int u / of_int (Quantity (df ! i)) * 100))))"
    by blast
qed

theorem defect_rate_zero_quantity_witness:
  "\<exists>df. preprocess raw_quantities = Inr df \<and> length df = 3 \<and>
     Quantity (df ! 0) = 0 \<and> Defect_Rate (df ! 0) = Some 0 \<and>
     Quantity (df ! 1) = 40 \<and> Defective_Units (df ! 1) = Some 3 \<and>
     Defect_Rate (df ! 1) = Some (3 / 40 * 100)"
proof -
  have raw: "length raw_quantities = 3" "Quantity (raw_quantities ! 0) = 0"
    "Quantity (raw_quantities ! 1) = 40"
    by (simp_all add: raw_quantities_def po_open_def)
  from defect_rate_zero_quantity [of po_open raw_quantities] obtain df where
    df: "preprocess raw_quantities = Inr df" "length df = length raw_quantities" and
    rows: "\<forall>i<length raw_quantities.
         Quantity (df ! i) = Quantity (raw_quantities ! i) \<and>
         (Quantity (df ! i) = 0 \<longrightarrow> Defect_Rate (df ! i) = Some 0) \<and>
         (Quantity (df ! i) \<noteq> 0 \<longrightarrow>
            (\<exists>u. Defective_Units (df ! i) = Some u \<and>
                 Defect_Rate (df ! i) = Some (of_int u / of_int (Quantity (df ! i)) * 100)))"
    by blast
  have "preprocess raw_quantities =
      Inr [raw_row.extend (po_open\<lparr>Quantity := 0, Defective_Units := Some 0, Unit_Price := 32000,
             Negotiated_Price := 16000\<rparr>) (row.fields None (Some 0)),
           raw_row.extend (po_open\<lparr>Quantity := 40, Defective_Units := Some 3, Unit_Price := 32000,
             Negotiated_Price := 16000\<rparr>) (row.fields None (Some (15 / 2))),
           raw_row.extend (po_open\<lparr>Quantity := 40, Defective_Units := Some 0, Unit_Price := 32000,
             Negotiated_Price := 16000\<rparr>) (row.fields None (Some 0))]"
    by code_simp
  with df have "df =
      [raw_row.extend (po_open\<lparr>Quantity := 0, Defective_Units := Some 0, Unit_Price := 32000,
             Negotiated_Price := 16000\<rparr>) (row.fields None (Some 0)),
           raw_row.extend (po_open\<lparr>Quantity := 40, Defective_Units := Some 3, Unit_Price := 32000,
             Negotiated_Price := 16000\<rparr>) (row.fields None (Some (15 / 2))),
           raw_row.extend (po_open\<lparr>Quantity := 40, Defective_Units := Some 0, Unit_Price := 32000,
             Negotiated_Price := 16000\<rparr>) (row.fields None (Some 0))]"
    by simp
  then have units: "Defective_Units (df ! 1) = Some 3"
    by (simp add: raw_row.defs row.defs)
  from rows raw have "Quantity (df ! 0) = 0 \<and> Defect_Rate (df ! 0) = Some 0"
    by simp
  moreover from rows [rule_format, of 1] raw units
  have "Quantity (df ! 1) = 40 \<and> Defect_Rate (df ! 1) = Some (3 / 40 * 100)"
    by auto
  ultimately show ?thesis
    using df raw units by auto
qed


text \<open>
  C7, as stated: a row whose delivery date stays missing fails every numeric
  threshold comparison of the filter. It does not: only the lead time is missing.
  The open order of Alpha, alone in the raw table, becomes a row without delivery date
  and without lead time, whose price (16000) passes \<^verbatim>\<open>Negotiated_Price <= 20000\<close>
  and whose defect rate (5) passes \<^verbatim>\<open>Defect_Rate <= 5\<close>; the lead-time comparison
  alone fails.
\<close>

theorem missing_lead_time_row_counterexample:
  "preprocess [po_open] = Inr [row_open] \<and>
   Delivery_Date row_open = None \<and> Lead_Time row_open = None \<and>
   price_ok 20000 row_open \<and> defect_ok 5 row_open \<and> \<not> lead_ok 30 row_open"
  by code_simp

text \<open>
  C7, amended. The preprocessing returns a table, row for row. A raw row without
  delivery date whose supplier has no row with a delivery date keeps a missing
  delivery date and has a missing lead time. Such a row fails the comparison
  \<^verbatim>\<open>Lead_Time <= max_lead_time\<close> for every limit (the comparisons of price and
  defect rate are made on its own values and may hold), so it is in the filtered frame
  of no query: the filtered frame is that of the table without the rows that have no
  lead time, every query that returns returns the result computed from it, and the
  query returns the same on both tables when it asks for all categories or a row
  with a lead time has a category. The missing lead time raises no error: the
  comparison is false.
\<close>

theorem missing_lead_time_row_excluded:
  "\<exists>df. preprocess raw = Inr df \<and> length df = length raw \<and>
     (\<forall>i<length raw.
        Delivery_Date (raw ! i) = None \<and>
        \<not> (\<exists>r\<in>set raw. Supplier r = Supplier (raw ! i) \<and> Delivery_Date r \<noteq> None) \<longrightarrow>
        Delivery_Date (df ! i) = None \<and> Lead_Time (df ! i) = None \<and>
        (\<forall>lib ic mp ml md cp.
           \<not> lead_ok ml (df ! i) \<and> df ! i \<notin> set (filtered_df lib df ic mp ml md cp))) \<and>
     (\<forall>lib ic mp ml md cp.
        filtered_df lib df ic mp ml md cp =
          filtered_df lib (filter (\<lambda>r. Lead_Time r \<noteq> None) df) ic mp ml md cp \<and>
        (\<forall>res. recommend_suppliers lib df ic mp ml md cp = Inr res \<longrightarrow>
           res = ranked_result lib ic cp
                   (filtered_df lib (filter (\<lambda>r. Lead_Time r \<noteq> None) df) ic mp ml md cp)) \<and>
        (ic = ''All'' \<or> (\<exists>r\<in>set df. Lead_Time r \<noteq> None \<and> Item_Category r \<noteq> None) \<longrightarrow>
           recommend_suppliers lib df ic mp ml md cp =
           recommend_suppliers lib (filter (\<lambda>r. Lead_Time r \<noteq> None) df) ic mp ml md cp))"
proof -
  from preprocess_fields [of raw] obtain df where
    df: "preprocess raw = Inr df" "length df = length raw" and
    fields: "\<And>i. i < length raw \<Longrightarrow>
        Delivery_Date (df ! i) = isi_delivery_date (mean_lead_time raw) (raw ! i) \<and>
        Lead_Time (df ! i) = map_option (\<lambda>d. d - Order_Date (raw ! i)) (Delivery_Date (df ! i))"
    by blast
  have missing: "Delivery_Date (df ! i) = None \<and> Lead_Time (df ! i) = None"
    if "i < length raw" "Delivery_Date (raw ! i) = None"
      "\<not> (\<exists>r\<in>set raw. Supplier r = Supplier (raw ! i) \<and> Delivery_Date r \<noteq> None)" for i
    using fields [OF that(1)] that(2,3)
    by (simp add: isi_delivery_date_def mean_lead_time_cases)
  have out: "\<not> lead_ok ml r \<and> r \<notin> set (filtered_df lib df ic mp ml md cp)"
    if "Lead_Time r = None" for r lib ic mp ml md cp
    using that lead_ok_None [of r ml] filtered_df_subset [of r lib df ic mp ml md cp]
    by blast
  let ?df' = "filter (\<lambda>r. Lead_Time r \<noteq> None) df"
  have same: "filtered_df lib df ic mp ml md cp = filtered_df lib ?df' ic mp ml md cp"
    for lib ic mp ml md cp
    unfolding filtered_df_eq filter_filter
    by (rule filter_cong) (auto simp: lead_ok_iff)
  have res: "res = ranked_result lib ic cp (filtered_df lib ?df' ic mp ml md cp)"
    if "recommend_suppliers lib df ic mp ml md cp = Inr res" for lib ic mp ml md cp res
    using that same [of lib ic mp ml md cp]
    by (auto simp: recommend_suppliers_cases split: if_splits)
  have both: "recommend_suppliers lib df ic mp ml md cp =
           recommend_suppliers lib ?df' ic mp ml md cp"
    if "ic = ''All'' \<or> (\<exists>r\<in>set df. Lead_Time r \<noteq> None \<and> Item_Category r \<noteq> None)"
    for lib ic mp ml md cp
    using that same [of lib ic mp ml md cp]
    by (auto simp: recommend_suppliers_cases)
  from df missing out same res both show ?thesis
    by (intro exI [of _ df]) simp
qed

theorem missing_lead_time_row_excluded_witness:
  "preprocess [po_open] = Inr [row_open] \<and>
   Delivery_Date ([po_open] ! 0) = None \<and>
   \<not> (\<exists>r\<in>set [po_open]. Supplier r = Supplier ([po_open] ! 0) \<and> Delivery_Date r \<noteq> None) \<and>
   Lead_Time row_open = None \<and>
   row_open \<notin> set (filtered_df exact [row_open] ''All'' 20000 30 5 ''All'') \<and>
   recommend_suppliers exact [row_open] ''All'' 20000 30 5 ''All'' =
     recommend_suppliers exact [] ''All'' 20000 30 5 ''All''"
proof -
  have pre: "preprocess [po_open] = Inr [row_open]"
    by code_simp
  have raw: "Delivery_Date ([po_open] ! 0) = None"
    "\<not> (\<exists>r\<in>set [po_open]. Supplier r = Supplier ([po_open] ! 0) \<and> Delivery_Date r \<noteq> None)"
    by (simp_all add: po_open_def)
  from missing_lead_time_row_excluded [of "[po_open]"] pre
  have rows: "\<forall>i<length [po_open].
        Delivery_Date ([po_open] ! i) = None \<and>
        \<not> (\<exists>r\<in>set [po_open]. Supplier r = Supplier ([po_open] ! i) \<and> Delivery_Date r \<noteq> None) \<longrightarrow>
        Delivery_Date ([row_open] ! i) = None \<and> Lead_Time ([row_open] ! i) = None \<and>
        (\<forall>lib ic mp ml md cp.
           \<not> lead_ok ml ([row_open] ! i) \<and>
           [row_open] ! i \<notin> set (filtered_df lib [row_open] ic mp ml md cp))"
    and same: "\<forall>lib ic mp ml md cp.
        ic = ''All'' \<or> (\<exists>r\<in>set [row_open]. Lead_Time r \<noteq> None \<and> Item_Category r \<noteq> None) \<longrightarrow>
        recommend_suppliers lib [row_open] ic mp ml md cp =
        recommend_suppliers lib (filter (\<lambda>r. Lead_Time r \<noteq> None) [row_open]) ic mp ml md cp"
    by auto
  from rows [rule_format, of 0] raw
  have none: "Lead_Time row_open = None \<and>
      (\<forall>lib ic mp ml md cp. row_open \<notin> set (filtered_df lib [row_open] ic mp ml md cp))"
    by simp
  moreover from none same [rule_format, of "''All''" exact 20000 30 5 "''All''"]
  have "recommend_suppliers exact [row_open] ''All'' 20000 30 5 ''All'' =
      recommend_suppliers exact [] ''All'' 20000 30 5 ''All''"
    by simp
  ultimately show ?thesis
    using pre raw by blast
qed

text \<open>
  C6. Raising one of the three limits, the rest of the query unchanged, never makes
  the filtered frame shorter.
\<close>

theorem filter_monotone:
  "(mp \<le> mp' \<longrightarrow>
      length (filtered_df lib df ic mp ml md cp) \<le> length (filtered_df lib df ic mp' ml md cp)) \<and>
   (ml \<le> ml' \<longrightarrow>
      length (filtered_df lib df ic mp ml md cp) \<le> length (filtered_df lib df ic mp ml' md cp)) \<and>
   (md \<le> md' \<longrightarrow>
      length (filtered_df lib df ic mp ml md cp) \<le> length (filtered_df lib df ic mp ml md' cp))"
  unfolding filtered_df_eq
  by (intro conjI impI length_filter_mono)
    (auto simp: price_ok_def lead_ok_def defect_ok_def intro: le_nan_mono)

theorem filter_monotone_witness:
  "(90000 :: rat) \<le> 100000 \<and> (3 :: rat) \<le> 4 \<and> (2 :: rat) \<le> 5 \<and>
   length (filtered_df exact df_three ''All'' 90000 4 5 ''All'') = 0 \<and>
   length (filtered_df exact df_three ''All'' 100000 3 5 ''All'') = 2 \<and>
   length (filtered_df exact df_three ''All'' 100000 4 2 ''All'') = 2 \<and>
   length (filtered_df exact df_three ''All'' 100000 4 5 ''All'') = 3 \<and>
   length (filtered_df exact df_three ''All'' 90000 4 5 ''All'')
     \<le> length (filtered_df exact df_three ''All'' 100000 4 5 ''All'') \<and>
   length (filtered_df exact df_three ''All'' 100000 3 5 ''All'')
     \<le> length (filtered_df exact df_three ''All'' 100000 4 5 ''All'') \<and>
   length (filtered_df exact df_three ''All'' 100000 4 2 ''All'')
     \<le> length (filtered_df exact df_three ''All'' 100000 4 5 ''All'')"
proof -
  have "length (filtered_df exact df_three ''All'' 90000 4 5 ''All'') = 0"
    "length (filtered_df exact df_three ''All'' 100000 3 5 ''All'') = 2"
    "length (filtered_df exact df_three ''All'' 100000 4 2 ''All'') = 2"
    "length (filtered_df exact df_three ''All'' 100000 4 5 ''All'') = 3"
    by code_simp+
  with filter_monotone [of 90000 100000 exact df_three "''All''" 4 5 "''All''" 4 5]
    filter_monotone [of 100000 100000 exact df_three "''All''" 3 5 "''All''" 4 5]
    filter_monotone [of 100000 100000 exact df_three "''All''" 4 2 "''All''" 4 5]
  show ?thesis
    by simp
qed

text \<open>
  C4. When the filtered frame is not empty, the call returns, and the grouping columns
  of the result are \<^verbatim>\<open>Supplier\<close>, then \<^verbatim>\<open>Item_Category\<close> exactly when
  \<^verbatim>\<open>item_category\<close> is \<^verbatim>\<open>"All"\<close>, then \<^verbatim>\<open>Compliance\<close> exactly when
  \<^verbatim>\<open>compliance_preference\<close> is \<^verbatim>\<open>"All"\<close>; every result row is keyed by the values
  of exactly these columns in a row of the filtered frame. So \<^verbatim>\<open>"All"\<close> with
  preference \<^verbatim>\<open>"Yes"\<close> gives the key (Supplier, Item_Category), and \<^verbatim>\<open>"All"\<close> with
  \<^verbatim>\<open>"All"\<close> gives (Supplier, Item_Category, Compliance).
\<close>

theorem grouping_key_columns:
  assumes "filtered_df lib df ic mp ml md cp \<noteq> []"
  shows "\<exists>res. recommend_suppliers lib df ic mp ml md cp = Inr res \<and>
         Group_Cols res =
           [''Supplier'']
           @ (if ic = ''All'' then [''Item_Category''] else [])
           @ (if cp = ''All'' then [''Compliance''] else []) \<and>
         ''Supplier'' \<in> set (Group_Cols res) \<and>
         (''Item_Category'' \<in> set (Group_Cols res) \<longleftrightarrow> ic = ''All'') \<and>
         (''Compliance'' \<in> set (Group_Cols res) \<longleftrightarrow> cp = ''All'') \<and>
         (\<forall>row\<in>set (Rows res).
            length (Group_Key row) = length (Group_Cols res) \<and>
            (\<exists>r\<in>set (filtered_df lib df ic mp ml md cp).
               map Some (Group_Key row) =
                 [Some (Supplier r)]
                 @ (if ic = ''All'' then [Item_Category r] else [])
                 @ (if cp = ''All'' then [Some (Compliance r)] else []))) \<and>
         (ic = ''All'' \<and> cp = ''Yes'' \<longrightarrow> Group_Cols res = [''Supplier'', ''Item_Category'']) \<and>
         (ic = ''All'' \<and> cp = ''All'' \<longrightarrow>
            Group_Cols res = [''Supplier'', ''Item_Category'', ''Compliance''])"
proof -
  let ?fdf = "filtered_df lib df ic mp ml md cp"
  let ?res = "ranked_result lib ic cp ?fdf"
  have ret: "recommend_suppliers lib df ic mp ml md cp = Inr ?res"
    using assms by (rule recommend_suppliers_returns)
  have cols: "Group_Cols ?res = group_cols ic cp"
    using assms by (simp add: ranked_result_def Let_def)
  have keyed: "length (Group_Key row) = length (group_cols ic cp) \<and>
            (\<exists>r\<in>set ?fdf.
               map Some (Group_Key row) =
                 [Some (Supplier r)]
                 @ (if ic = ''All'' then [Item_Category r] else [])
                 @ (if cp = ''All'' then [Some (Compliance r)] else []))"
    if "row \<in> set (Rows ?res)" for row
  proof -
    from result_row_is_group [OF that] obtain st k r where
      row: "row = agg lib (group_cols ic cp) st ?fdf k" and
      r: "r \<in> set ?fdf" "group_key (group_cols ic cp) r = Some k"
      by blast
    from r(2) have k: "map Some k =
                 [Some (Supplier r)]
                 @ (if ic = ''All'' then [Item_Category r] else [])
                 @ (if cp = ''All'' then [Some (Compliance r)] else [])"
      by (simp only: group_key_eq_Some)
    then have "length (map Some k) = length (group_cols ic cp)"
      by (simp add: group_cols_def)
    with k r(1) row show ?thesis
      by auto
  qed
  from keyed have "\<forall>row\<in>set (Rows ?res).
            length (Group_Key row) = length (Group_Cols ?res) \<and>
            (\<exists>r\<in>set ?fdf.
               map Some (Group_Key row) =
                 [Some (Supplier r)]
                 @ (if ic = ''All'' then [Item_Category r] else [])
                 @ (if cp = ''All'' then [Some (Compliance r)] else []))"
    unfolding cols by blast
  moreover have "Group_Cols ?res =
           [''Supplier'']
           @ (if ic = ''All'' then [''Item_Category''] else [])
           @ (if cp = ''All'' then [''Compliance''] else [])"
    by (simp add: cols group_cols_def)
  moreover have "''Supplier'' \<in> set (Group_Cols ?res)"
    "''Item_Category'' \<in> set (Group_Cols ?res) \<longleftrightarrow> ic = ''All''"
    "''Compliance'' \<in> set (Group_Cols ?res) \<longleftrightarrow> cp = ''All''"
    "ic = ''All'' \<and> cp = ''Yes'' \<longrightarrow> Group_Cols ?res = [''Supplier'', ''Item_Category'']"
    "ic = ''All'' \<and> cp = ''All'' \<longrightarrow>
            Group_Cols ?res = [''Supplier'', ''Item_Category'', ''Compliance'']"
    using cols by (auto simp: group_cols_def)
  ultimately show ?thesis
    using ret by (intro exI [of _ ?res] conjI)
qed

theorem grouping_key_columns_witness:
  "filtered_df exact df_three ''All'' 200000 10 5 ''Yes'' \<noteq> [] \<and>
   (\<exists>res. recommend_suppliers exact df_three ''All'' 200000 10 5 ''Yes'' = Inr res \<and>
      Group_Cols res = [''Supplier'', ''Item_Category''] \<and>
      ''Compliance'' \<notin> set (Group_Cols res)) \<and>
   map Group_Key (returned_rows (recommend_suppliers exact df_three ''All'' 200000 10 5 ''Yes'')) =
     [[''Beta'', ''Office Supplies''], [''Gamma'', ''Office Supplies''],
      [''Alpha'', ''Office Supplies'']]"
proof -
  have ne: "filtered_df exact df_three ''All'' 200000 10 5 ''Yes'' \<noteq> []"
    by code_simp
  have keys: "map Group_Key (returned_rows (recommend_suppliers exact df_three ''All'' 200000 10 5 ''Yes'')) =
     [[''Beta'', ''Office Supplies''], [''Gamma'', ''Office Supplies''],
      [''Alpha'', ''Office Supplies'']]"
    by code_simp
  from grouping_key_columns [OF ne] obtain res where
    "recommend_suppliers exact df_three ''All'' 200000 10 5 ''Yes'' = Inr res"
    "Group_Cols res = [''Supplier'', ''Item_Category'']"
    "''Compliance'' \<in> set (Group_Cols res) \<longleftrightarrow> ''Yes'' = ''All''"
    by auto
  with ne keys show ?thesis
    by auto
qed

text \<open>
  C2. The rows of a result are in ascending order of \<^verbatim>\<open>Defect_Rate (%)\<close>, then of
  \<^verbatim>\<open>Lead_Time\<close>, then of \<^verbatim>\<open>Avg_Negotiated_Price\<close> (none of them missing), and rows
  equal in all three are in the order of their group keys, which is the order the
  groups had before the sort. For defect rates 5, 2, 2 with lead times 3, 1, 4 the
  output order is (2, 1), (2, 4), (5, 3).
\<close>

theorem result_sort_order:
  "(\<forall>i j. i < j \<and> j < length (returned_rows (recommend_suppliers lib df ic mp ml md cp)) \<longrightarrow>
      (\<exists>d l p d' l' p'.
         Defect_Rate_Pct (returned_rows (recommend_suppliers lib df ic mp ml md cp) ! i) = Some d \<and>
         Avg_Lead_Time (returned_rows (recommend_suppliers lib df ic mp ml md cp) ! i) = Some l \<and>
         Avg_Negotiated_Price (returned_rows (recommend_suppliers lib df ic mp ml md cp) ! i) = Some p \<and>
         Defect_Rate_Pct (returned_rows (recommend_suppliers lib df ic mp ml md cp) ! j) = Some d' \<and>
         Avg_Lead_Time (returned_rows (recommend_suppliers lib df ic mp ml md cp) ! j) = Some l' \<and>
         Avg_Negotiated_Price (returned_rows (recommend_suppliers lib df ic mp ml md cp) ! j) = Some p' \<and>
         (d < d' \<or> d = d' \<and> (l < l' \<or> l = l' \<and> (p < p' \<or> p = p' \<and>
            Group_Key (returned_rows (recommend_suppliers lib df ic mp ml md cp) ! i)
              < Group_Key (returned_rows (recommend_suppliers lib df ic mp ml md cp) ! j)))))) \<and>
   map Defect_Rate (filtered_df exact df_three ''All'' 200000 10 5 ''All'') = [Some 5, Some 2, Some 2] \<and>
   map Lead_Time (filtered_df exact df_three ''All'' 200000 10 5 ''All'') = [Some 3, Some 1, Some 4] \<and>
   map (\<lambda>row. (Defect_Rate_Pct row, Avg_Lead_Time row))
     (returned_rows (recommend_suppliers exact df_three ''All'' 200000 10 5 ''All'')) =
     [(Some 2, Some 1), (Some 2, Some 4), (Some 5, Some 3)]"
proof (intro conjI allI impI)
  fix i j
  let ?R = "returned_rows (recommend_suppliers lib df ic mp ml md cp)"
  assume ij: "i < j \<and> j < length ?R"
  then have mem: "?R ! i \<in> set ?R" "?R ! j \<in> set ?R"
    by simp_all
  from result_row_values [OF mem(1)] obtain d l p where
    a: "Defect_Rate_Pct (?R ! i) = Some d" "Avg_Lead_Time (?R ! i) = Some l"
      "Avg_Negotiated_Price (?R ! i) = Some p"
    by blast
  from result_row_values [OF mem(2)] obtain d' l' p' where
    b: "Defect_Rate_Pct (?R ! j) = Some d'" "Avg_Lead_Time (?R ! j) = Some l'"
      "Avg_Negotiated_Price (?R ! j) = Some p'"
    by blast
  from returned_rows_lex_sorted [of lib df ic mp ml md cp] ij
  have "sort_cols (?R ! i) < sort_cols (?R ! j) \<or>
      sort_cols (?R ! i) = sort_cols (?R ! j) \<and> Group_Key (?R ! i) < Group_Key (?R ! j)"
    by (simp add: sorted_wrt_iff_nth_less)
  then have "d < d' \<or> d = d' \<and> (l < l' \<or> l = l' \<and> (p < p' \<or> p = p' \<and>
            Group_Key (?R ! i) < Group_Key (?R ! j)))"
    unfolding sort_cols_less [OF a b] by auto
  with a b show "\<exists>d l p d' l' p'.
         Defect_Rate_Pct (?R ! i) = Some d \<and>
         Avg_Lead_Time (?R ! i) = Some l \<and>
         Avg_Negotiated_Price (?R ! i) = Some p \<and>
         Defect_Rate_Pct (?R ! j) = Some d' \<and>
         Avg_Lead_Time (?R ! j) = Some l' \<and>
         Avg_Negotiated_Price (?R ! j) = Some p' \<and>
         (d < d' \<or> d = d' \<and> (l < l' \<or> l = l' \<and> (p < p' \<or> p = p' \<and>
            Group_Key (?R ! i) < Group_Key (?R ! j))))"
    by blast
next
  show "map Defect_Rate (filtered_df exact df_three ''All'' 200000 10 5 ''All'') = [Some 5, Some 2, Some 2]"
    by code_simp
next
  show "map Lead_Time (filtered_df exact df_three ''All'' 200000 10 5 ''All'') = [Some 3, Some 1, Some 4]"
    by code_simp
next
  show "map (\<lambda>row. (Defect_Rate_Pct row, Avg_Lead_Time row))
     (returned_rows (recommend_suppliers exact df_three ''All'' 200000 10 5 ''All'')) =
     [(Some 2, Some 1), (Some 2, Some 4), (Some 5, Some 3)]"
    by code_simp
qed

theorem result_sort_order_witness:
  "(0 :: nat) < 1 \<and>
   1 < length (returned_rows (recommend_suppliers exact df_three ''All'' 200000 10 5 ''All'')) \<and>
   (\<exists>d l p d' l' p'.
      Defect_Rate_Pct (returned_rows (recommend_suppliers exact df_three ''All'' 200000 10 5 ''All'') ! 0) = Some d \<and>
      Avg_Lead_Time (returned_rows (recommend_suppliers exact df_three ''All'' 200000 10 5 ''All'') ! 0) = Some l \<and>
      Avg_Negotiated_Price (returned_rows (recommend_suppliers exact df_three ''All'' 200000 10 5 ''All'') ! 0) = Some p \<and>
      Defect_Rate_Pct (returned_rows (recommend_suppliers exact df_three ''All'' 200000 10 5 ''All'') ! 1) = Some d' \<and>
      Avg_Lead_Time (returned_rows (recommend_suppliers exact df_three ''All'' 200000 10 5 ''All'') ! 1) = Some l' \<and>
      Avg_Negotiated_Price (returned_rows (recommend_suppliers exact df_three ''All'' 200000 10 5 ''All'') ! 1) = Some p' \<and>
      (d < d' \<or> d = d' \<and> (l < l' \<or> l = l' \<and> (p < p' \<or> p = p' \<and>
         Group_Key (returned_rows (recommend_suppliers exact df_three ''All'' 200000 10 5 ''All'') ! 0)
           < Group_Key (returned_rows (recommend_suppliers exact df_three ''All'' 200000 10 5 ''All'') ! 1)))))"
proof -
  have len: "length (returned_rows (recommend_suppliers exact df_three ''All'' 200000 10 5 ''All'')) = 3"
    by code_simp
  then have "(0 :: nat) < 1 \<and>
      1 < length (returned_rows (recommend_suppliers exact df_three ''All'' 200000 10 5 ''All''))"
    by simp
  with result_sort_order [of exact df_three "''All''" 200000 10 5 "''All''", THEN conjunct1, rule_format, of 0 1]
  show ?thesis
    by blast
qed


text \<open>
  C3. Imputation of the delivery date. The preprocessing returns a table, row for row.
  The reference lead times of a supplier are the differences, in days, between
  delivery and order date of its raw rows that have a delivery date. A raw row without
  delivery date whose supplier has such a row gets its order date plus \<open>n\<close> days,
  where \<open>n\<close> is the integer nearest to the mean of the supplier's reference lead times
  and, when the mean lies halfway between two integers, the even one (Python's
  \<^verbatim>\<open>round\<close>); with no such row of the supplier the delivery date stays missing.
  With lead times 3, 5 and 7 and an order of 2024-01-01 the imputed date is
  2024-01-06; with lead times 2 and 3 (mean 2.5) it is 2024-01-03, and with lead times
  3 and 4 (mean 3.5) it is 2024-01-05.
\<close>

theorem imputation_of_delivery_date:
  "(\<forall>s. ref_lead_times raw s =
      concat (map (\<lambda>r. case Delivery_Date r of None \<Rightarrow> [] | Some d \<Rightarrow> [d - Order_Date r])
        (filter (\<lambda>r. Supplier r = s) raw))) \<and>
   (\<exists>df. preprocess raw = Inr df \<and> length df = length raw \<and>
      (\<forall>i<length raw. Delivery_Date (raw ! i) = None \<longrightarrow>
         (if \<exists>r\<in>set raw. Supplier r = Supplier (raw ! i) \<and> Delivery_Date r \<noteq> None
          then \<exists>n. Delivery_Date (df ! i) = Some (Order_Date (raw ! i) + n) \<and>
                 \<bar>of_int n - sum_list (map of_int (ref_lead_times raw (Supplier (raw ! i))))
                     / of_nat (length (ref_lead_times raw (Supplier (raw ! i))))\<bar> \<le> (1 / 2 :: rat) \<and>
                 (\<bar>of_int n - sum_list (map of_int (ref_lead_times raw (Supplier (raw ! i))))
                     / of_nat (length (ref_lead_times raw (Supplier (raw ! i))))\<bar> = (1 / 2 :: rat)
                    \<longrightarrow> even n)
          else Delivery_Date (df ! i) = None))) \<and>
   ref_lead_times raw_alpha (Supplier (raw_alpha ! 3)) = [3, 5, 7] \<and>
   Order_Date (raw_alpha ! 3) = days_from_civil 2024 1 1 \<and>
   Delivery_Date (raw_alpha ! 3) = None \<and>
   (\<exists>df. preprocess raw_alpha = Inr df \<and>
      Delivery_Date (df ! 3) = Some (days_from_civil 2024 1 6)) \<and>
   ref_lead_times raw_halves (Supplier (raw_halves ! 2)) = [2, 3] \<and>
   Order_Date (raw_halves ! 2) = days_from_civil 2024 1 1 \<and>
   Delivery_Date (raw_halves ! 2) = None \<and>
   ref_lead_times raw_halves (Supplier (raw_halves ! 5)) = [3, 4] \<and>
   Order_Date (raw_halves ! 5) = days_from_civil 2024 1 1 \<and>
   Delivery_Date (raw_halves ! 5) = None \<and>
   (\<exists>df. preprocess raw_halves = Inr df \<and>
      Delivery_Date (df ! 2) = Some (days_from_civil 2024 1 3) \<and>
      Delivery_Date (df ! 5) = Some (days_from_civil 2024 1 5))"
proof (intro conjI)
  show "\<forall>s. ref_lead_times raw s =
      concat (map (\<lambda>r. case Delivery_Date r of None \<Rightarrow> [] | Some d \<Rightarrow> [d - Order_Date r])
        (filter (\<lambda>r. Supplier r = s) raw))"
    using ref_lead_times_explicit by blast
next
  from preprocess_fields [of raw] obtain df where
    df: "preprocess raw = Inr df" "length df = length raw" and
    fields: "\<And>i. i < length raw \<Longrightarrow>
        Delivery_Date (df ! i) = isi_delivery_date (mean_lead_time raw) (raw ! i)"
    by blast
  have "if \<exists>r\<in>set raw. Supplier r = Supplier (raw ! i) \<and> Delivery_Date r \<noteq> None
          then \<exists>n. Delivery_Date (df ! i) = Some (Order_Date (raw ! i) + n) \<and>
                 \<bar>of_int n - sum_list (map of_int (ref_lead_times raw (Supplier (raw ! i))))
                     / of_nat (length (ref_lead_times raw (Supplier (raw ! i))))\<bar> \<le> (1 / 2 :: rat) \<and>
                 (\<bar>of_int n - sum_list (map of_int (ref_lead_times raw (Supplier (raw ! i))))
                     / of_nat (length (ref_lead_times raw (Supplier (raw ! i))))\<bar> = (1 / 2 :: rat)
                    \<longrightarrow> even n)
          else Delivery_Date (df ! i) = None"
    if i: "i < length raw" "Delivery_Date (raw ! i) = None" for i
  proof (cases "\<exists>r\<in>set raw. Supplier r = Supplier (raw ! i) \<and> Delivery_Date r \<noteq> None")
    case True
    let ?m = "sum_list (map of_int (ref_lead_times raw (Supplier (raw ! i))))
                / of_nat (length (ref_lead_times raw (Supplier (raw ! i)))) :: rat"
    from True fields [OF i(1)] i(2)
    have "Delivery_Date (df ! i) = Some (Order_Date (raw ! i) + py_round ?m)"
      by (simp add: isi_delivery_date_def mean_lead_time_cases mean_def)
    with py_round_nearest [of ?m] True show ?thesis
      by (simp only: if_True) blast
  next
    case False
    with fields [OF i(1)] i(2) have "Delivery_Date (df ! i) = None"
      by (simp add: isi_delivery_date_def mean_lead_time_cases)
    with False show ?thesis
      by (simp only: if_False)
  qed
  with df show "\<exists>df. preprocess raw = Inr df \<and> length df = length raw \<and>
      (\<forall>i<length raw. Delivery_Date (raw ! i) = None \<longrightarrow>
         (if \<exists>r\<in>set raw. Supplier r = Supplier (raw ! i) \<and> Delivery_Date r \<noteq> None
          then \<exists>n. Delivery_Date (df ! i) = Some (Order_Date (raw ! i) + n) \<and>
                 \<bar>of_int n - sum_list (map of_int (ref_lead_times raw (Supplier (raw ! i))))
                     / of_nat (length (ref_lead_times raw (Supplier (raw ! i))))\<bar> \<le> (1 / 2 :: rat) \<and>
                 (\<bar>of_int n - sum_list (map of_int (ref_lead_times raw (Supplier (raw ! i))))
                     / of_nat (length (ref_lead_times raw (Supplier (raw ! i))))\<bar> = (1 / 2 :: rat)
                    \<longrightarrow> even n)
          else Delivery_Date (df ! i) = None))"
    by blast
next
  show "ref_lead_times raw_alpha (Supplier (raw_alpha ! 3)) = [3, 5, 7]"
    by code_simp
next
  show "Order_Date (raw_alpha ! 3) = days_from_civil 2024 1 1"
    by code_simp
next
  show "Delivery_Date (raw_alpha ! 3) = None"
    by code_simp
next
  have "map Delivery_Date (case preprocess raw_alpha of Inr df \<Rightarrow> df | Inl e \<Rightarrow> []) ! 3 =
      Some (days_from_civil 2024 1 6)"
    by code_simp
  moreover from preprocess_fields [of raw_alpha] obtain df where
    "preprocess raw_alpha = Inr df" "length df = length raw_alpha"
    by blast
  moreover have "length raw_alpha = 4"
    by (simp add: raw_alpha_def)
  ultimately show "\<exists>df. preprocess raw_alpha = Inr df \<and>
      Delivery_Date (df ! 3) = Some (days_from_civil 2024 1 6)"
    by auto
next
  show "ref_lead_times raw_halves (Supplier (raw_halves ! 2)) = [2, 3]"
    by code_simp
next
  show "Order_Date (raw_halves ! 2) = days_from_civil 2024 1 1"
    by code_simp
next
  show "Delivery_Date (raw_halves ! 2) = None"
    by code_simp
next
  show "ref_lead_times raw_halves (Supplier (raw_halves ! 5)) = [3, 4]"
    by code_simp
next
  show "Order_Date (raw_halves ! 5) = days_from_civil 2024 1 1"
    by code_simp
next
  show "Delivery_Date (raw_halves ! 5) = None"
    by code_simp
next
  have "map Delivery_Date (case preprocess raw_halves of Inr df \<Rightarrow> df | Inl e \<Rightarrow> []) ! 2 =
      Some (days_from_civil 2024 1 3)"
    "map Delivery_Date (case preprocess raw_halves of Inr df \<Rightarrow> df | Inl e \<Rightarrow> []) ! 5 =
      Some (days_from_civil 2024 1 5)"
    by code_simp+
  moreover from preprocess_fields [of raw_halves] obtain df where
    "preprocess raw_halves = Inr df" "length df = length raw_halves"
    by blast
  moreover have "length raw_halves = 6"
    by (simp add: raw_halves_def)
  ultimately show "\<exists>df. preprocess raw_halves = Inr df \<and>
      Delivery_Date (df ! 2) = Some (days_from_civil 2024 1 3) \<and>
      Delivery_Date (df ! 5) = Some (days_from_civil 2024 1 5)"
    by auto
qed

theorem imputation_of_delivery_date_witness:
  "\<exists>df. preprocess raw_halves = Inr df \<and> length df = 6 \<and>
     Delivery_Date (raw_halves ! 5) = None \<and>
     (\<exists>r\<in>set raw_halves. Supplier r = Supplier (raw_halves ! 5) \<and> Delivery_Date r \<noteq> None) \<and>
     sum_list (map of_int (ref_lead_times raw_halves (Supplier (raw_halves ! 5))))
       / of_nat (length (ref_lead_times raw_halves (Supplier (raw_halves ! 5)))) = (7 / 2 :: rat) \<and>
     Delivery_Date (df ! 5) = Some (19723 + 4)"
proof -
  have raw: "length raw_halves = 6" "Delivery_Date (raw_halves ! 5) = None"
    "Order_Date (raw_halves ! 5) = 19723"
    "raw_halves ! 3 \<in> set raw_halves" "Supplier (raw_halves ! 3) = Supplier (raw_halves ! 5)"
    "Delivery_Date (raw_halves ! 3) \<noteq> None"
    by (simp_all add: raw_halves_def po_open_def days_from_civil_def)
  have m: "sum_list (map of_int (ref_lead_times raw_halves (Supplier (raw_halves ! 5))))
       / of_nat (length (ref_lead_times raw_halves (Supplier (raw_halves ! 5)))) = (7 / 2 :: rat)"
    by code_simp
  from raw have ref: "\<exists>r\<in>set raw_halves. Supplier r = Supplier (raw_halves ! 5) \<and> Delivery_Date r \<noteq> None"
    by blast
  from imputation_of_delivery_date [of raw_halves, THEN conjunct2, THEN conjunct1] obtain df where
    df: "preprocess raw_halves = Inr df" "length df = length raw_halves" and
    rows: "\<forall>i<length raw_halves. Delivery_Date (raw_halves ! i) = None \<longrightarrow>
         (if \<exists>r\<in>set raw_halves. Supplier r = Supplier (raw_halves ! i) \<and> Delivery_Date r \<noteq> None
          then \<exists>n. Delivery_Date (df ! i) = Some (Order_Date (raw_halves ! i) + n) \<and>
                 \<bar>of_int n - sum_list (map of_int (ref_lead_times raw_halves (Supplier (raw_halves ! i))))
                     / of_nat (length (ref_lead_times raw_halves (Supplier (raw_halves ! i))))\<bar> \<le> (1 / 2 :: rat) \<and>
                 (\<bar>of_int n - sum_list (map of_int (ref_lead_times raw_halves (Supplier (raw_halves ! i))))
                     / of_nat (length (ref_lead_times raw_halves (Supplier (raw_halves ! i))))\<bar> = (1 / 2 :: rat)
                    \<longrightarrow> even n)
          else Delivery_Date (df ! i) = None)"
    by blast
  from rows [rule_format, of 5] raw(1,2) ref obtain n where
    n: "Delivery_Date (df ! 5) = Some (Order_Date (raw_halves ! 5) + n)"
      "\<bar>of_int n - sum_list (map of_int (ref_lead_times raw_halves (Supplier (raw_halves ! 5))))
          / of_nat (length (ref_lead_times raw_halves (Supplier (raw_halves ! 5))))\<bar> \<le> (1 / 2 :: rat)"
      "\<bar>of_int n - sum_list (map of_int (ref_lead_times raw_halves (Supplier (raw_halves ! 5))))
          / of_nat (length (ref_lead_times raw_halves (Supplier (raw_halves ! 5))))\<bar> = (1 / 2 :: rat)
         \<longrightarrow> even n"
    by auto
  from n(2,3) have near: "\<bar>of_int n - (7 / 2 :: rat)\<bar> \<le> 1 / 2"
    "\<bar>of_int n - (7 / 2 :: rat)\<bar> = 1 / 2 \<longrightarrow> even n"
    unfolding m by simp_all
  from near(1) have "(of_int 3 :: rat) \<le> of_int n" "of_int n \<le> (of_int 4 :: rat)"
    by linarith+
  then have "3 \<le> n" "n \<le> 4"
    by (simp_all only: of_int_le_iff)
  then have "n = 3 \<or> n = 4"
    by arith
  with near(2) have "n = 4"
    by auto
  with n(1) raw(3) have "Delivery_Date (df ! 5) = Some (19723 + 4)"
    by simp
  with df raw ref m show ?thesis
    by auto
qed


text \<open>
  C5. The filtered frame is the table restricted, in order, to the rows for which
  every predicate holds: the category equals \<^verbatim>\<open>item_category\<close> after
  \<^verbatim>\<open>str.lower\<close> of both (unless \<^verbatim>\<open>item_category\<close> is \<^verbatim>\<open>"All"\<close>), the compliance
  equals the preference (unless it is \<^verbatim>\<open>"All"\<close>; the preferences are \<^verbatim>\<open>"All"\<close>,
  \<^verbatim>\<open>"Yes"\<close> and \<^verbatim>\<open>"No"\<close>), and price, lead time and defect rate are at most their
  limits, a value equal to its limit included. For a query and categories in ASCII,
  where \<^verbatim>\<open>str.lower\<close> lowers the letters A to Z, equal after lowering means equal
  without regard to case: the two strings have the same length and at each position
  the same character, or a capital letter in one and its small letter (32 code points
  later) in the other.
\<close>

theorem filter_keeps_exactly_matching_rows:
  assumes "cp \<in> {''All'', ''Yes'', ''No''}"
  shows "filtered_df lib df ic mp ml md cp =
     filter (\<lambda>r. (ic = ''All'' \<or>
                    (\<exists>c. Item_Category r = Some c \<and> str_lower lib c = str_lower lib ic)) \<and>
                 (cp = ''All'' \<or> Compliance r = cp) \<and>
                 Negotiated_Price r \<le> mp \<and>
                 (\<exists>l. Lead_Time r = Some l \<and> of_int l \<le> ml) \<and>
                 (\<exists>d. Defect_Rate r = Some d \<and> d \<le> md)) df \<and>
   ((\<forall>s. ascii s \<longrightarrow> str_lower lib s = ascii_lower s) \<and> ascii ic \<and>
    (\<forall>r\<in>set df. \<forall>c. Item_Category r = Some c \<longrightarrow> ascii c) \<longrightarrow>
    filtered_df lib df ic mp ml md cp =
     filter (\<lambda>r. (ic = ''All'' \<or>
                    (\<exists>c. Item_Category r = Some c \<and>
                       list_all2 (\<lambda>a b. a = b \<or>
                          (CHR ''A'' \<le> a \<and> a \<le> CHR ''Z'' \<and> (of_char b :: nat) = of_char a + 32) \<or>
                          (CHR ''A'' \<le> b \<and> b \<le> CHR ''Z'' \<and> (of_char a :: nat) = of_char b + 32))
                         c ic)) \<and>
                 (cp = ''All'' \<or> Compliance r = cp) \<and>
                 Negotiated_Price r \<le> mp \<and>
                 (\<exists>l. Lead_Time r = Some l \<and> of_int l \<le> ml) \<and>
                 (\<exists>d. Defect_Rate r = Some d \<and> d \<le> md)) df)"
proof (intro conjI impI)
  show general: "filtered_df lib df ic mp ml md cp =
     filter (\<lambda>r. (ic = ''All'' \<or>
                    (\<exists>c. Item_Category r = Some c \<and> str_lower lib c = str_lower lib ic)) \<and>
                 (cp = ''All'' \<or> Compliance r = cp) \<and>
                 Negotiated_Price r \<le> mp \<and>
                 (\<exists>l. Lead_Time r = Some l \<and> of_int l \<le> ml) \<and>
                 (\<exists>d. Defect_Rate r = Some d \<and> d \<le> md)) df"
    unfolding filtered_df_eq
    using assms
    by (intro filter_cong refl) (auto simp: price_ok_def lead_ok_iff defect_ok_iff)
  assume a: "(\<forall>s. ascii s \<longrightarrow> str_lower lib s = ascii_lower s) \<and> ascii ic \<and>
    (\<forall>r\<in>set df. \<forall>c. Item_Category r = Some c \<longrightarrow> ascii c)"
  have "str_lower lib c = str_lower lib ic \<longleftrightarrow>
      list_all2 (\<lambda>a b. a = b \<or>
          (CHR ''A'' \<le> a \<and> a \<le> CHR ''Z'' \<and> (of_char b :: nat) = of_char a + 32) \<or>
          (CHR ''A'' \<le> b \<and> b \<le> CHR ''Z'' \<and> (of_char a :: nat) = of_char b + 32)) c ic"
    if "r \<in> set df" "Item_Category r = Some c" for r c
  proof -
    from a that have "str_lower lib c = ascii_lower c" "str_lower lib ic = ascii_lower ic"
      by blast+
    then show ?thesis
      by (simp only: ascii_lower_eq_iff)
  qed
  then show "filtered_df lib df ic mp ml md cp =
     filter (\<lambda>r. (ic = ''All'' \<or>
                    (\<exists>c. Item_Category r = Some c \<and>
                       list_all2 (\<lambda>a b. a = b \<or>
                          (CHR ''A'' \<le> a \<and> a \<le> CHR ''Z'' \<and> (of_char b :: nat) = of_char a + 32) \<or>
                          (CHR ''A'' \<le> b \<and> b \<le> CHR ''Z'' \<and> (of_char a :: nat) = of_char b + 32))
                         c ic)) \<and>
                 (cp = ''All'' \<or> Compliance r = cp) \<and>
                 Negotiated_Price r \<le> mp \<and>
                 (\<exists>l. Lead_Time r = Some l \<and> of_int l \<le> ml) \<and>
                 (\<exists>d. Defect_Rate r = Some d \<and> d \<le> md)) df"
    unfolding general
    by (intro filter_cong refl) (metis (no_types, lifting))
qed

theorem filter_keeps_exactly_matching_rows_witness:
  "''Yes'' \<in> {''All'', ''Yes'', ''No''} \<and> ascii ''office supplies'' \<and>
   filter (\<lambda>r. (''office supplies'' = ''All'' \<or>
                    (\<exists>c. Item_Category r = Some c \<and>
                       list_all2 (\<lambda>a b. a = b \<or>
                          (CHR ''A'' \<le> a \<and> a \<le> CHR ''Z'' \<and> (of_char b :: nat) = of_char a + 32) \<or>
                          (CHR ''A'' \<le> b \<and> b \<le> CHR ''Z'' \<and> (of_char a :: nat) = of_char b + 32))
                         c ''office supplies'')) \<and>
                 (''Yes'' = ''All'' \<or> Compliance r = ''Yes'') \<and>
                 Negotiated_Price r \<le> 100000 \<and>
                 (\<exists>l. Lead_Time r = Some l \<and> rat_of_int l \<le> 3) \<and>
                 (\<exists>d. Defect_Rate r = Some d \<and> d \<le> 5)) df_mixed = take 2 df_mixed \<and>
   length df_mixed = 8 \<and>
   map Item_Category (take 2 df_mixed) = [Some ''Office Supplies'', Some ''OFFICE SUPPLIES''] \<and>
   Negotiated_Price (df_mixed ! 0) = 100000 \<and> Lead_Time (df_mixed ! 0) = Some 3 \<and>
   Defect_Rate (df_mixed ! 0) = Some 5"
proof -
  have cp: "''Yes'' \<in> {''All'', ''Yes'', ''No''}"
    by simp
  have lw: "\<forall>s. ascii s \<longrightarrow> str_lower exact s = ascii_lower s"
    by (simp add: exact_def)
  have ic: "ascii ''office supplies''"
    by (simp add: ascii_def)
  have cats: "\<forall>r\<in>set df_mixed. \<forall>c. Item_Category r = Some c \<longrightarrow> ascii c"
    by (auto simp: df_mixed_def line_def ascii_def)
  have "filtered_df exact df_mixed ''office supplies'' 100000 3 5 ''Yes'' = take 2 df_mixed"
    by code_simp
  with filter_keeps_exactly_matching_rows [OF cp, of exact df_mixed "''office supplies''" 100000 3 5,
      THEN conjunct2, rule_format, OF conjI [OF lw conjI [OF ic cats]]]
  have "filter (\<lambda>r. (''office supplies'' = ''All'' \<or>
                    (\<exists>c. Item_Category r = Some c \<and>
                       list_all2 (\<lambda>a b. a = b \<or>
                          (CHR ''A'' \<le> a \<and> a \<le> CHR ''Z'' \<and> (of_char b :: nat) = of_char a + 32) \<or>
                          (CHR ''A'' \<le> b \<and> b \<le> CHR ''Z'' \<and> (of_char a :: nat) = of_char b + 32))
                         c ''office supplies'')) \<and>
                 (''Yes'' = ''All'' \<or> Compliance r = ''Yes'') \<and>
                 Negotiated_Price r \<le> 100000 \<and>
                 (\<exists>l. Lead_Time r = Some l \<and> rat_of_int l \<le> 3) \<and>
                 (\<exists>d. Defect_Rate r = Some d \<and> d \<le> 5)) df_mixed = take 2 df_mixed"
    by (simp only:)
  moreover have "length df_mixed = 8"
    "map Item_Category (take 2 df_mixed) = [Some ''Office Supplies'', Some ''OFFICE SUPPLIES'']"
    "Negotiated_Price (df_mixed ! 0) = 100000" "Lead_Time (df_mixed ! 0) = Some 3"
    "Defect_Rate (df_mixed ! 0) = Some 5"
    by (simp_all add: df_mixed_def line_def)
  ultimately show ?thesis
    using cp ic by (intro conjI)
qed

text \<open>
  C9, as stated: for any criteria under which every row is filtered out,
  \<^verbatim>\<open>recommend_suppliers\<close> returns an empty result and raises nothing. It can raise. In
  a table whose only line has no category, no row matches the category MRO, so every
  row is filtered out, and the call raises \<^verbatim>\<open>AttributeError\<close> at line 47.
\<close>

theorem recommend_degenerate_counterexample:
  "filtered_df exact df_no_category ''MRO'' 200000 10 5 ''All'' = [] \<and>
   recommend_suppliers exact df_no_category ''MRO'' 200000 10 5 ''All'' = Inl AttributeError"
  by code_simp

text \<open>
  C9, amended. \<^verbatim>\<open>recommend_suppliers\<close> raises nothing on degenerate input when
  \<^verbatim>\<open>item_category\<close> is \<^verbatim>\<open>"All"\<close> or some row of the table has a category (the form
  offers \<^verbatim>\<open>"All"\<close> and the categories present in the table, nothing else): on the
  empty table, and on any such table and query that leave no row in the filtered
  frame, it returns the empty frame \<^verbatim>\<open>pd.DataFrame()\<close>, which tests as empty. The
  one error of a call is the \<^verbatim>\<open>AttributeError\<close> of line 47, for a category other
  than \<^verbatim>\<open>"All"\<close> on a table with rows of which none has a category.
\<close>

theorem recommend_degenerate_is_empty:
  "recommend_suppliers lib [] ic mp ml md cp = Inr empty_DataFrame \<and>
   ((ic = ''All'' \<or> (\<exists>r\<in>set df. Item_Category r \<noteq> None)) \<and>
    filtered_df lib df ic mp ml md cp = [] \<longrightarrow>
      recommend_suppliers lib df ic mp ml md cp = Inr empty_DataFrame) \<and>
   is_empty empty_DataFrame \<and>
   (\<forall>e. recommend_suppliers lib df ic mp ml md cp = Inl e \<longrightarrow>
      e = AttributeError \<and> ic \<noteq> ''All'' \<and> df \<noteq> [] \<and> (\<forall>r\<in>set df. Item_Category r = None))"
proof (intro conjI impI allI)
  show "recommend_suppliers lib [] ic mp ml md cp = Inr empty_DataFrame"
    by (simp add: recommend_suppliers_cases ranked_result_def filtered_df_eq)
next
  assume "(ic = ''All'' \<or> (\<exists>r\<in>set df. Item_Category r \<noteq> None)) \<and>
    filtered_df lib df ic mp ml md cp = []"
  then show "recommend_suppliers lib df ic mp ml md cp = Inr empty_DataFrame"
    by (auto simp: recommend_suppliers_cases ranked_result_def)
next
  show "is_empty empty_DataFrame"
    by (simp add: is_empty_def empty_DataFrame_def)
next
  fix e
  assume "recommend_suppliers lib df ic mp ml md cp = Inl e"
  then show "e = AttributeError" "ic \<noteq> ''All''" "df \<noteq> []" "\<forall>r\<in>set df. Item_Category r = None"
    by (auto simp: recommend_suppliers_cases split: if_splits)
qed

theorem recommend_degenerate_is_empty_witness:
  "df_defect \<noteq> [] \<and>
   (\<exists>r\<in>set df_defect. Item_Category r \<noteq> None) \<and>
   filtered_df exact df_defect ''MRO'' 200000 10 5 ''All'' = [] \<and>
   recommend_suppliers exact df_defect ''MRO'' 200000 10 5 ''All'' = Inr empty_DataFrame \<and>
   recommend_suppliers exact df_no_category ''MRO'' 200000 10 5 ''All'' = Inl AttributeError \<and>
   df_no_category \<noteq> [] \<and> map Item_Category df_no_category = [None]"
proof -
  have ne: "df_defect \<noteq> []" and cat: "\<exists>r\<in>set df_defect. Item_Category r \<noteq> None"
    by (simp_all add: df_defect_def line_def)
  have empty: "filtered_df exact df_defect ''MRO'' 200000 10 5 ''All'' = []"
    by code_simp
  have raised: "recommend_suppliers exact df_no_category ''MRO'' 200000 10 5 ''All'' = Inl AttributeError"
    by code_simp
  from recommend_degenerate_is_empty [of exact "''MRO''" 200000 10 5 "''All''" df_defect] cat empty
  have "recommend_suppliers exact df_defect ''MRO'' 200000 10 5 ''All'' = Inr empty_DataFrame"
    by blast
  moreover from recommend_degenerate_is_empty [of exact "''MRO''" 200000 10 5 "''All''" df_no_category]
    raised
  have "df_no_category \<noteq> [] \<and> (\<forall>r\<in>set df_no_category. Item_Category r = None)"
    by blast
  moreover have "map Item_Category df_no_category = [None]"
    by (simp add: df_no_category_def)
  ultimately show ?thesis
    using ne cat empty raised by blast
qed





text \<open>
  C1, as stated: with \<^verbatim>\<open>max_defect_rate = 5\<close>, a row returned in fallback mode with
  defect rate 6.5 gets a reason containing "defect rate 6.5%". It does not. For the
  table with defect rates 6.5 and 5.5 the query allowing 5 is empty, the relaxed
  query returns both suppliers, and both notes are the near-threshold one, since 6.5
  is within 2 of 5 and that check comes first. The note for 6.5 does not contain the
  exceeds-threshold text \<^verbatim>\<open>Defect Rate 6.5%\<close>, in the source's letter case or in
  lower case.
\<close>

theorem fallback_reason_counterexample:
  "recommend_suppliers exact df_defect ''All'' 200000 10 5 ''All'' = Inr empty_DataFrame \<and>
   map Defect_Rate_Pct (returned_rows (alternatif exact df_defect ''All'' 200000 10 5 ''All'')) =
     [Some (11 / 2), Some (13 / 2)] \<and>
   Catatan fmt_1f exact df_defect ''All'' 200000 10 5 ''All'' =
     [''Defect Rate mendekati batas (5.5%)'', ''Defect Rate mendekati batas (6.5%)''] \<and>
   \<not> sublist ''Defect Rate 6.5%'' (Catatan fmt_1f exact df_defect ''All'' 200000 10 5 ''All'' ! 1) \<and>
   \<not> sublist ''defect rate 6.5%''
       (ascii_lower (Catatan fmt_1f exact df_defect ''All'' 200000 10 5 ''All'' ! 1))"
  by code_simp

text \<open>
  C1, amended. The near-threshold check
  \<^verbatim>\<open>abs(row['Defect_Rate (%)'] - max_defect_rate) <= 2\<close> is evaluated before the
  exceeds-threshold check for every row. The reason starts with
  \<^verbatim>\<open>Defect Rate mendekati batas (X%)\<close> (near the defect limit, \<open>X\<close> the rate with one
  decimal) exactly when the rate is within 2 of the limit; it starts with
  \<^verbatim>\<open>Defect Rate X%\<close> exactly when the rate is more than 2 above the limit; and for a
  rate more than 2 below the limit it does not start with a defect-rate note at all.
  With the limit 5, the rates 6.5 and 5.5 are both within 2, and their reasons start
  with \<^verbatim>\<open>Defect Rate mendekati batas (6.5%)\<close> and
  \<^verbatim>\<open>Defect Rate mendekati batas (5.5%)\<close>.
\<close>

theorem fallback_reason_near_first:
  assumes "Defect_Rate_Pct row = Some d"
  shows "(prefix (''Defect Rate mendekati batas ('' @ fmt_1f d @ ''%)'') (alasan fs mp ml md row)
            \<longleftrightarrow> \<bar>d - md\<bar> \<le> 2) \<and>
         (prefix (''Defect Rate '' @ fmt_1f d @ ''%'') (alasan fs mp ml md row)
            \<longleftrightarrow> md + 2 < d) \<and>
         (d < md - 2 \<longrightarrow> \<not> prefix ''Defect Rate'' (alasan fs mp ml md row)) \<and>
         (md = 5 \<and> d = 13 / 2 \<longrightarrow>
            prefix ''Defect Rate mendekati batas (6.5%)'' (alasan fs mp ml md row)) \<and>
         (md = 5 \<and> d = 11 / 2 \<longrightarrow>
            prefix ''Defect Rate mendekati batas (5.5%)'' (alasan fs mp ml md row))"
proof -
  let ?near = "''Defect Rate mendekati batas ('' @ fmt_1f d @ ''%)''"
  let ?exceeds = "''Defect Rate '' @ fmt_1f d @ ''%''"
  from fmt_1f_first [of d] obtain c cs where f: "fmt_1f d = c # cs" "c \<noteq> CHR ''m''"
    by blast
  from alasan_shape [OF assms, of fs mp ml md] obtain rest where
    rest: "rest = [] \<or> (\<exists>t ts. rest = (CHR ''H'' # t) # ts) \<or> (\<exists>t ts. rest = (CHR ''L'' # t) # ts)" and
    a: "alasan fs mp ml md row =
             join '', '' ((if \<bar>d - md\<bar> \<le> 2 then [?near] else if md < d then [?exceeds] else []) @ rest)"
    by blast
  have other: "\<not> prefix (CHR ''D'' # s) (join '', '' rest)" for s
    using rest by (auto simp: join_Cons simp del: join.simps(2,3))
  consider (near) "\<bar>d - md\<bar> \<le> 2" | (exceeds) "md + 2 < d" | (below) "d < md - 2"
    by linarith
  then have main: "(prefix ?near (alasan fs mp ml md row) \<longleftrightarrow> \<bar>d - md\<bar> \<le> 2) \<and>
         (prefix ?exceeds (alasan fs mp ml md row) \<longleftrightarrow> md + 2 < d) \<and>
         (d < md - 2 \<longrightarrow> \<not> prefix ''Defect Rate'' (alasan fs mp ml md row))"
  proof cases
    case near
    then have "\<not> md + 2 < d" "\<not> d < md - 2"
      by linarith+
    moreover from near a have "alasan fs mp ml md row = ?near @ (if rest = [] then [] else '', '' @ join '', '' rest)"
      by (simp add: join_Cons del: join.simps)
    ultimately show ?thesis
      using near f not_prefix_exceeds_near [OF f(2), of cs "''%''"] by simp
  next
    case exceeds
    then have n: "\<not> \<bar>d - md\<bar> \<le> 2" "md < d" "\<not> d < md - 2"
      by linarith+
    with a have "alasan fs mp ml md row = ?exceeds @ (if rest = [] then [] else '', '' @ join '', '' rest)"
      by (simp add: join_Cons del: join.simps)
    then show ?thesis
      using exceeds n f not_prefix_near_exceeds [OF f(2), of _ cs] by simp
  next
    case below
    then have n: "\<not> \<bar>d - md\<bar> \<le> 2" "\<not> md < d" "\<not> md + 2 < d"
      by linarith+
    with a have "alasan fs mp ml md row = join '', '' rest"
      by simp
    then show ?thesis
      using below n other by simp
  qed
  have f65: "fmt_1f (13 / 2) = ''6.5''" and f55: "fmt_1f (11 / 2) = ''5.5''"
    by code_simp+
  have "prefix ''Defect Rate mendekati batas (6.5%)'' (alasan fs mp ml md row)"
    if "md = 5" "d = 13 / 2"
    using main that f65 by simp
  moreover have "prefix ''Defect Rate mendekati batas (5.5%)'' (alasan fs mp ml md row)"
    if "md = 5" "d = 11 / 2"
    using main that f55 by simp
  ultimately show ?thesis
    using main by blast
qed


theorem fallback_reason_near_first_witness:
  "Defect_Rate_Pct (returned_rows (alternatif exact df_defect ''All'' 200000 10 5 ''All'') ! 1)
     = Some (13 / 2) \<and>
   \<bar>13 / 2 - 5\<bar> \<le> (2 :: rat) \<and> \<not> (5 + 2 < (13 / 2 :: rat)) \<and>
   prefix ''Defect Rate mendekati batas (6.5%)''
     (alasan fmt_1f 200000 10 5 (returned_rows (alternatif exact df_defect ''All'' 200000 10 5 ''All'') ! 1)) \<and>
   \<not> prefix (''Defect Rate '' @ fmt_1f (13 / 2) @ ''%'')
     (alasan fmt_1f 200000 10 5 (returned_rows (alternatif exact df_defect ''All'' 200000 10 5 ''All'') ! 1))"
proof -
  have d: "Defect_Rate_Pct (returned_rows (alternatif exact df_defect ''All'' 200000 10 5 ''All'') ! 1)
      = Some (13 / 2)"
    by code_simp
  from fallback_reason_near_first [OF d, of fmt_1f 200000 10 5] d
  show ?thesis
    by simp
qed

end
